theory Spec2Isabelle
  imports Complex_Main
begin

section \<open>ProgressTracker: the project store, the percentage/ETC display and the timer\<close>

text \<open>
  A shallow embedding of \<^verbatim>\<open>src/progess.py\<close> (class \<^verbatim>\<open>ModernProgressBarApp\<close>).

  \<^item> Python floats are modelled as \<^typ>\<open>real\<close>: rounding, infinities and NaN are
    not represented.
  \<^item> The widgets are fields of the record \<open>app\<close>; a Qt signal that is connected to a
    function is modelled as a synchronous call of that function.
  \<^item> Every \<^verbatim>\<open>QMessageBox\<close> call is appended to the log \<open>messages\<close>.
  \<^item> \<^verbatim>\<open>time.time()\<close> and \<^verbatim>\<open>uuid.uuid4()\<close> read the next element of a sequence
    held in the state.
  \<^item> \<^verbatim>\<open>float(text)\<close>, \<^verbatim>\<open>f"{v:.1f}"\<close> and \<^verbatim>\<open>text.strip()\<close> are library
    functions; the methods take them as the parameter \<open>L\<close>.
  \<^item> The methods \<^verbatim>\<open>toggle_timer\<close>, \<^verbatim>\<open>_finalize_input_editing\<close>,
    \<^verbatim>\<open>_update_display_from_inputs\<close> and \<^verbatim>\<open>update_etc_for_project\<close> call each
    other. Their first argument is the number of stack frames that are left; a call
    with none left is Python's \<^verbatim>\<open>RecursionError\<close>.
\<close>

subsection \<open>Data\<close>

text \<open>The dataclass \<^verbatim>\<open>Project\<close>; the field \<^verbatim>\<open>id\<close> is \<open>id_of\<close> here.\<close>

record project =
  id_of :: string
  name :: string
  total_units :: real
  current_units :: real
  start_time :: "real option"
  is_running :: bool
  elapsed_at_pause :: real
  description :: string

text \<open>Exceptions that leave a method.\<close>

datatype py_error = RecursionError | KeyError | TypeError

datatype msgbox =
  Information string string
  | Warning string string
  | Critical string string

datatype line_edit = TotalInput | CurrentInput

datatype attr = TotalUnits | CurrentUnits

text \<open>The library functions the methods use on the text of a line edit.\<close>

record pylib =
  float_of :: "string \<Rightarrow> real option"   \<comment> \<open>\<^verbatim>\<open>float(text)\<close>; \<open>None\<close> is \<^verbatim>\<open>ValueError\<close>\<close>
  format_1f :: "real \<Rightarrow> string"          \<comment> \<open>\<^verbatim>\<open>f"{v:.1f}"\<close>\<close>
  is_blank :: "string \<Rightarrow> bool"            \<comment> \<open>\<^verbatim>\<open>not text.strip()\<close>\<close>

record app =
  projects :: "project list"               \<comment> \<open>the dict, in insertion order, keyed by \<open>id_of\<close>\<close>
  current_project_id :: "string option"
  project_list_widget :: "(string \<times> string) list"   \<comment> \<open>items: text and the id stored as data\<close>
  list_current_row :: "nat option"
  project_name_input :: string
  project_description_input :: string
  total_value_input :: string
  current_value_input :: string
  progress_bar :: int                      \<comment> \<open>the argument of the last \<^verbatim>\<open>setValue\<close>\<close>
  percentage_label :: string
  etc_label :: string
  start_timer_button :: string             \<comment> \<open>the button's text\<close>
  button_running :: bool                   \<comment> \<open>the button's property "running"\<close>
  messages :: "msgbox list"
  clock :: "nat \<Rightarrow> real"                  \<comment> \<open>the readings \<^verbatim>\<open>time.time()\<close> returns, in order\<close>
  clock_reads :: nat
  uuids :: "nat \<Rightarrow> string"                 \<comment> \<open>the values \<^verbatim>\<open>str(uuid.uuid4())\<close> returns, in order\<close>
  uuid_calls :: nat

subsection \<open>The dict of projects\<close>

fun dict_get :: "string \<Rightarrow> project list \<Rightarrow> project option" where
  "dict_get k [] = None"
| "dict_get k (p # ps) = (if id_of p = k then Some p else dict_get k ps)"

text \<open>\<^verbatim>\<open>self.projects[p.id] = p\<close>: an existing key keeps its place, a new one goes last.\<close>

fun dict_set :: "project \<Rightarrow> project list \<Rightarrow> project list" where
  "dict_set q [] = [q]"
| "dict_set q (p # ps) = (if id_of p = id_of q then q # ps else p # dict_set q ps)"

text \<open>An assignment to fields of the object stored under key \<open>k\<close>.\<close>

definition modify :: "string \<Rightarrow> (project \<Rightarrow> project) \<Rightarrow> app \<Rightarrow> app" where
  "modify k f s = s\<lparr>projects := map (\<lambda>p. if id_of p = k then f p else p) (projects s)\<rparr>"

text \<open>Python's truth value of an \<^verbatim>\<open>Optional[str]\<close>: \<^verbatim>\<open>None\<close> and \<^verbatim>\<open>""\<close> are false.\<close>

definition falsy :: "string option \<Rightarrow> bool" where
  "falsy x = (x = None \<or> x = Some [])"

subsection \<open>Small steps of the methods\<close>

definition show_message :: "msgbox \<Rightarrow> app \<Rightarrow> app" where
  "show_message m s = s\<lparr>messages := messages s @ [m]\<rparr>"

definition time_time :: "app \<Rightarrow> real \<times> app" where
  "time_time s = (clock s (clock_reads s), s\<lparr>clock_reads := Suc (clock_reads s)\<rparr>)"

definition uuid4 :: "app \<Rightarrow> string \<times> app" where
  "uuid4 s = (uuids s (uuid_calls s), s\<lparr>uuid_calls := Suc (uuid_calls s)\<rparr>)"

definition line_text :: "line_edit \<Rightarrow> app \<Rightarrow> string" where
  "line_text le s = (case le of TotalInput \<Rightarrow> total_value_input s | CurrentInput \<Rightarrow> current_value_input s)"

definition put_text :: "line_edit \<Rightarrow> string \<Rightarrow> app \<Rightarrow> app" where
  "put_text le t s =
     (case le of TotalInput \<Rightarrow> s\<lparr>total_value_input := t\<rparr> | CurrentInput \<Rightarrow> s\<lparr>current_value_input := t\<rparr>)"

definition getattr :: "project \<Rightarrow> attr \<Rightarrow> real" where
  "getattr p a = (case a of TotalUnits \<Rightarrow> total_units p | CurrentUnits \<Rightarrow> current_units p)"

definition setattr :: "attr \<Rightarrow> real \<Rightarrow> project \<Rightarrow> project" where
  "setattr a v p = (case a of TotalUnits \<Rightarrow> p\<lparr>total_units := v\<rparr> | CurrentUnits \<Rightarrow> p\<lparr>current_units := v\<rparr>)"

text \<open>Sequencing: an exception of the first step leaves the method.\<close>

definition and_then :: "py_error + 'a \<Rightarrow> ('a \<Rightarrow> py_error + 'b) \<Rightarrow> py_error + 'b" where
  "and_then m f = (case m of Inl e \<Rightarrow> Inl e | Inr x \<Rightarrow> f x)"

text \<open>
  \<^verbatim>\<open>QLineEdit.setText\<close>: the signal \<^verbatim>\<open>textChanged\<close> is emitted only when the text
  changes; \<open>slot\<close> is the method connected to it.
\<close>

definition setText :: "line_edit \<Rightarrow> string \<Rightarrow> (app \<Rightarrow> py_error + app) \<Rightarrow> app \<Rightarrow> py_error + app" where
  "setText le t slot s = (if line_text le s = t then Inr s else slot (put_text le t s))"

definition get_safe_value :: "pylib \<Rightarrow> string \<Rightarrow> real \<Rightarrow> real" where
  "get_safe_value L val_str default_val =
     (if is_blank L val_str then default_val
      else case float_of L val_str of None \<Rightarrow> default_val | Some v \<Rightarrow> v)"

text \<open>\<^verbatim>\<open>math.isclose(a, b)\<close> with its defaults \<^verbatim>\<open>rel_tol=1e-09, abs_tol=0.0\<close>.\<close>

definition isclose :: "real \<Rightarrow> real \<Rightarrow> bool" where
  "isclose a b = (\<bar>a - b\<bar> \<le> max (max \<bar>a\<bar> \<bar>b\<bar> / 1000000000) 0)"

text \<open>\<^verbatim>\<open>int(x)\<close> of a float: truncation towards zero.\<close>

definition py_int :: "real \<Rightarrow> int" where
  "py_int x = (if 0 \<le> x then \<lfloor>x\<rfloor> else \<lceil>x\<rceil>)"

text \<open>The decimal digits of a natural number, and \<^verbatim>\<open>f"{n:02d}"\<close>.\<close>

fun digits :: "nat \<Rightarrow> string" where
  "digits n = (if n < 10 then [''0123456789'' ! n] else digits (n div 10) @ [''0123456789'' ! (n mod 10)])"

declare digits.simps [simp del]

definition format_02d :: "nat \<Rightarrow> string" where
  "format_02d n = (if n < 10 then CHR ''0'' # digits n else digits n)"

definition format_time :: "real option \<Rightarrow> string" where
  "format_time seconds =
     (case seconds of
        None \<Rightarrow> ''--:--:--''
      | Some sec \<Rightarrow>
          if sec < 0 then ''--:--:--''
          else let hours = \<lfloor>sec / 3600\<rfloor>;
                   minutes = \<lfloor>(sec - 3600 * of_int \<lfloor>sec / 3600\<rfloor>) / 60\<rfloor>;
                   seconds' = \<lfloor>sec - 60 * of_int \<lfloor>sec / 60\<rfloor>\<rfloor>
               in format_02d (nat hours) @ '':'' @ format_02d (nat minutes) @ '':'' @ format_02d (nat seconds'))"

text \<open>
  Lines 651 to 657 of \<^verbatim>\<open>_update_display_from_inputs\<close>: the percentage, and the value
  that the bar and the label receive.
\<close>

definition progress_percentage :: "real \<Rightarrow> real \<Rightarrow> real" where
  "progress_percentage current tot = (if tot > 0 then (current / tot) * 100 else 0)"

definition displayed_percentage :: "real \<Rightarrow> real \<Rightarrow> real" where
  "displayed_percentage current tot = min (progress_percentage current tot) 100"

text \<open>\<^verbatim>\<open>if project.id == self.current_project_id: self.etc_label.setText(t)\<close>\<close>

definition set_etc :: "project \<Rightarrow> string \<Rightarrow> app \<Rightarrow> app" where
  "set_etc p t s = (if Some (id_of p) = current_project_id s then s\<lparr>etc_label := t\<rparr> else s)"

definition set_button :: "string \<Rightarrow> string \<Rightarrow> bool \<Rightarrow> app \<Rightarrow> app" where
  "set_button project_id t r s =
     (if Some project_id = current_project_id s
      then s\<lparr>start_timer_button := t, button_running := r\<rparr> else s)"


text \<open>Python's \<^verbatim>\<open>a / b\<close> on floats: \<open>None\<close> is \<^verbatim>\<open>ZeroDivisionError\<close>.\<close>

definition py_div :: "real \<Rightarrow> real \<Rightarrow> real option" where
  "py_div a b = (if b = 0 then None else Some (a / b))"

text \<open>\<^verbatim>\<open>if not self.current_project_id: return\<close>: the selected key, if there is one.\<close>

definition selected :: "app \<Rightarrow> string option" where
  "selected s = (if falsy (current_project_id s) then None else current_project_id s)"

text \<open>Lines 742 and 743 of \<^verbatim>\<open>toggle_timer\<close>.\<close>

definition refetch :: "pylib \<Rightarrow> string \<Rightarrow> app \<Rightarrow> app" where
  "refetch L k s =
     modify k (\<lambda>p. p\<lparr>current_units := get_safe_value L (current_value_input s) (current_units p)\<rparr>)
       (modify k (\<lambda>p. p\<lparr>total_units := get_safe_value L (total_value_input s) (total_units p)\<rparr>) s)"

text \<open>Lines 759 to 765 of \<^verbatim>\<open>toggle_timer\<close>.\<close>

definition start_timer :: "string \<Rightarrow> app \<Rightarrow> app" where
  "start_timer k s =
     (let (now, s1) = time_time s
      in set_button k ''Stop Timer'' True
           (modify k (\<lambda>p. p\<lparr>start_time := Some now, is_running := True\<rparr>) s1))"

text \<open>Lines 767 to 776 of \<^verbatim>\<open>toggle_timer\<close>.\<close>

definition stop_timer :: "string \<Rightarrow> project \<Rightarrow> app \<Rightarrow> app" where
  "stop_timer k project s =
     set_button k ''Start Timer'' False
       (case start_time project of
          None \<Rightarrow> modify k (\<lambda>p. p\<lparr>is_running := False, start_time := None\<rparr>) s
        | Some st \<Rightarrow>
            (let (now, s1) = time_time s
             in modify k (\<lambda>p. p\<lparr>elapsed_at_pause := elapsed_at_pause p + (now - st),
                                 is_running := False, start_time := None\<rparr>) s1))"

subsection \<open>The four methods that call each other\<close>

text \<open>
  Each method body is written once, with the methods it calls as parameters; the
  recursive definition below passes them in with one stack frame less.
\<close>

type_synonym handler = "app \<Rightarrow> py_error + app"

text \<open>
  Lines 737 to 743 of \<^verbatim>\<open>toggle_timer\<close>: when the project is the one displayed, both
  fields are finalized and read back. \<open>finalize\<close> is \<^verbatim>\<open>_finalize_input_editing\<close>.
\<close>

definition finalize_inputs ::
  "(line_edit \<Rightarrow> attr \<Rightarrow> string \<Rightarrow> bool \<Rightarrow> handler) \<Rightarrow> pylib \<Rightarrow> string \<Rightarrow> handler" where
  "finalize_inputs finalize L project_id s =
     (if Some project_id = current_project_id s
      then and_then (finalize TotalInput TotalUnits ''Total Work Units'' True s)
            (\<lambda>s1. and_then (finalize CurrentInput CurrentUnits ''Current Work Units'' False s1)
               (\<lambda>s2. Inr (refetch L project_id s2)))
      else Inr s)"

text \<open>
  Lines 746 to 781 of \<^verbatim>\<open>toggle_timer\<close>: the checks before a start, the start, the
  stop. \<open>update_etc\<close> is \<^verbatim>\<open>update_etc_for_project\<close>.
\<close>

definition start_or_stop :: "(string \<Rightarrow> handler) \<Rightarrow> string \<Rightarrow> handler" where
  "start_or_stop update_etc project_id s =
     (case dict_get project_id (projects s) of
        None \<Rightarrow> Inl KeyError
      | Some project \<Rightarrow>
          if \<not> is_running project then
            (if total_units project \<le> 0
             then Inr (show_message (Warning ''Timer Error''
                    ''Total Work Units must be a positive number to start the timer.'') s)
             else if current_units project < 0
             then Inr (show_message (Warning ''Timer Error''
                    ''Current Work Units cannot be negative.'') s)
             else if current_units project \<ge> total_units project
             then update_etc project_id
                    (show_message (Information ''Timer Info''
                       ''Current Work Units already meet or exceed Total. Project is complete. No need to start timer.'') s)
             else (let s4 = start_timer project_id s
                   in if Some project_id = current_project_id s4
                      then update_etc project_id s4 else Inr s4))
          else (let s4 = stop_timer project_id project s
                in if Some project_id = current_project_id s4
                   then update_etc project_id s4 else Inr s4))"

text \<open>\<^verbatim>\<open>toggle_timer(project_id)\<close>, lines 723 to 781.\<close>

definition toggle_timer_body ::
  "(line_edit \<Rightarrow> attr \<Rightarrow> string \<Rightarrow> bool \<Rightarrow> handler) \<Rightarrow> (string \<Rightarrow> handler) \<Rightarrow>
   pylib \<Rightarrow> string option \<Rightarrow> handler" where
  "toggle_timer_body finalize update_etc L arg s =
     (case (case arg of None \<Rightarrow> current_project_id s | Some a \<Rightarrow> Some a) of
        None \<Rightarrow> Inr (show_message (Information ''Timer Control'' ''No project selected or invalid project.'') s)
      | Some project_id \<Rightarrow>
          if project_id = [] \<or> dict_get project_id (projects s) = None
          then Inr (show_message (Information ''Timer Control'' ''No project selected or invalid project.'') s)
          else and_then (finalize_inputs finalize L project_id s) (start_or_stop update_etc project_id))"

text \<open>
  Lines 607 to 622 of \<^verbatim>\<open>_finalize_input_editing\<close>: the value that will be stored, for
  a text that \<^verbatim>\<open>float\<close> accepted as \<open>v\<close>. \<open>toggle\<close> is \<^verbatim>\<open>toggle_timer\<close>.
\<close>

definition validate ::
  "(string option \<Rightarrow> handler) \<Rightarrow> project \<Rightarrow> attr \<Rightarrow> string \<Rightarrow> bool \<Rightarrow> real \<Rightarrow> app \<Rightarrow>
   py_error + (real \<times> app)" where
  "validate toggle project project_attr field_name is_total v s =
     (if is_total then
        (if v \<le> 0
         then Inr (getattr project project_attr,
                show_message (Warning ''Input Error'' (field_name @ '' must be a positive number.'')) s)
         else if v < current_units project
         then Inr (current_units project,
                show_message (Warning ''Input Error''
                  (field_name @ '' cannot be less than Current Work Units. Setting to Current Work Units.'')) s)
         else Inr (v, s))
      else
        (if v < 0
         then Inr (getattr project project_attr,
                show_message (Warning ''Input Error'' (field_name @ '' cannot be negative.'')) s)
         else if v > total_units project
         then (let s1 = show_message (Information ''Input Info''
                          (field_name @ '' cannot exceed Total Work Units. Setting to Total Work Units.'')) s
               in if is_running project
                  then and_then (toggle (Some (id_of project)) s1) (\<lambda>s2. Inr (total_units project, s2))
                  else Inr (total_units project, s1))
         else Inr (v, s)))"

text \<open>
  The \<^verbatim>\<open>try\<close> statement of \<^verbatim>\<open>_finalize_input_editing\<close>, lines 603 to 630, for
  the selected project \<open>project\<close> with key \<open>k\<close>. \<open>update_display\<close> is
  \<^verbatim>\<open>_update_display_from_inputs\<close>, the slot of the line edit's \<^verbatim>\<open>textChanged\<close>.
\<close>

definition store_input ::
  "(string option \<Rightarrow> handler) \<Rightarrow> handler \<Rightarrow> pylib \<Rightarrow> line_edit \<Rightarrow> attr \<Rightarrow> string \<Rightarrow> bool \<Rightarrow>
   string \<Rightarrow> project \<Rightarrow> handler" where
  "store_input toggle update_display L le project_attr field_name is_total k project s =
     (case float_of L (line_text le s) of
        Some v \<Rightarrow>
          and_then (validate toggle project project_attr field_name is_total v s)
            (\<lambda>(value, s3).
               setText le (format_1f L value) update_display
                 (modify k (setattr project_attr value) s3))
      | None \<Rightarrow>
          setText le (format_1f L (getattr project project_attr)) update_display
            (if \<not> is_blank L (line_text le s)
             then show_message (Warning ''Input Error''
                    (''Please enter a valid number for '' @ field_name @ ''.'')) s
             else s))"

text \<open>
  \<^verbatim>\<open>_finalize_input_editing(line_edit, project_attr, field_name, is_total)\<close>, lines 593
  to 632.
\<close>

definition finalize_input_editing_body ::
  "(string option \<Rightarrow> handler) \<Rightarrow> handler \<Rightarrow>
   pylib \<Rightarrow> line_edit \<Rightarrow> attr \<Rightarrow> string \<Rightarrow> bool \<Rightarrow> handler" where
  "finalize_input_editing_body toggle update_display L le project_attr field_name is_total s =
     (case selected s of
        None \<Rightarrow> Inr s
      | Some k \<Rightarrow>
         (case dict_get k (projects s) of
            None \<Rightarrow> Inl KeyError
          | Some project \<Rightarrow>
              and_then
                (store_input toggle update_display L le project_attr field_name is_total k project s)
                update_display))"

text \<open>\<^verbatim>\<open>_update_display_from_inputs()\<close>, lines 635 to 658.\<close>

definition update_display_from_inputs_body :: "(string \<Rightarrow> handler) \<Rightarrow> pylib \<Rightarrow> handler" where
  "update_display_from_inputs_body update_etc L s =
     (case selected s of
        None \<Rightarrow> Inr s
      | Some k \<Rightarrow>
         (case dict_get k (projects s) of
            None \<Rightarrow> Inl KeyError
          | Some project \<Rightarrow>
              (let current = get_safe_value L (current_value_input s) (current_units project);
                   tot = get_safe_value L (total_value_input s) (total_units project);
                   s1 = modify k (\<lambda>p. p\<lparr>current_units := current, total_units := tot\<rparr>) s;
                   s2 = s1\<lparr>progress_bar := py_int (displayed_percentage current tot),
                           percentage_label := format_1f L (displayed_percentage current tot) @ ''%''\<rparr>
               in update_etc k s2)))"

text \<open>
  \<^verbatim>\<open>update_etc_for_project(project)\<close>, lines 669 to 716; \<open>k\<close> is the key of the object
  that is passed. \<^verbatim>\<open>ZeroDivisionError\<close> is caught (the label reads "ETC: Error");
  the \<^verbatim>\<open>TypeError\<close> of \<^verbatim>\<open>time.time() - None\<close> is not.
\<close>

definition update_etc_for_project_body :: "(string option \<Rightarrow> handler) \<Rightarrow> string \<Rightarrow> handler" where
  "update_etc_for_project_body toggle k s =
     (case dict_get k (projects s) of
        None \<Rightarrow> Inl KeyError
      | Some project \<Rightarrow>
          if \<not> is_running project then
            (if start_time project \<noteq> None
             then Inr (set_etc project
                    (''ETC: Paused ('' @ format_time (Some (elapsed_at_pause project)) @ '' elapsed)'') s)
             else Inr (set_etc project ''ETC: --:--:--'' s))
          else
            (let (now, s1) = time_time s in
             case start_time project of
               None \<Rightarrow> Inl TypeError
             | Some st \<Rightarrow>
                 (let current_elapsed_time = elapsed_at_pause project + (now - st) in
                  if total_units project \<le> 0
                  then Inr (set_etc project ''ETC: Total > 0 req.'' s1)
                  else if isclose (current_units project) 0 \<or> isclose current_elapsed_time 0
                  then Inr (set_etc project ''ETC: Calculating...'' s1)
                  else
                    (case py_div (current_units project) (total_units project) of
                       None \<Rightarrow> Inr (set_etc project ''ETC: Error'' s1)
                     | Some progress_ratio \<Rightarrow>
                         if progress_ratio \<ge> 1 then
                           (let s2 = set_etc project ''ETC: Complete!'' s1
                            in if is_running project
                               then toggle (Some (id_of project)) s2
                               else Inr s2)
                         else if progress_ratio > 0 then
                           (case py_div (current_units project) current_elapsed_time of
                              None \<Rightarrow> Inr (set_etc project ''ETC: Error'' s1)
                            | Some rate \<Rightarrow>
                               (case py_div (total_units project - current_units project) rate of
                                  None \<Rightarrow> Inr (set_etc project ''ETC: Error'' s1)
                                | Some remaining_time \<Rightarrow>
                                    Inr (set_etc project (''ETC: '' @ format_time (Some remaining_time)) s1)))
                         else Inr (set_etc project ''ETC: Estimating...'' s1)))))"

fun toggle_timer :: "nat \<Rightarrow> pylib \<Rightarrow> string option \<Rightarrow> handler"
  and finalize_input_editing :: "nat \<Rightarrow> pylib \<Rightarrow> line_edit \<Rightarrow> attr \<Rightarrow> string \<Rightarrow> bool \<Rightarrow> handler"
  and update_display_from_inputs :: "nat \<Rightarrow> pylib \<Rightarrow> handler"
  and update_etc_for_project :: "nat \<Rightarrow> pylib \<Rightarrow> string \<Rightarrow> handler" where
  "toggle_timer 0 L arg s = Inl RecursionError"
| "toggle_timer (Suc n) L arg s =
     toggle_timer_body (finalize_input_editing n L) (update_etc_for_project n L) L arg s"
| "finalize_input_editing 0 L le project_attr field_name is_total s = Inl RecursionError"
| "finalize_input_editing (Suc n) L le project_attr field_name is_total s =
     finalize_input_editing_body (toggle_timer n L) (update_display_from_inputs n L)
       L le project_attr field_name is_total s"
| "update_display_from_inputs 0 L s = Inl RecursionError"
| "update_display_from_inputs (Suc n) L s =
     update_display_from_inputs_body (update_etc_for_project n L) L s"
| "update_etc_for_project 0 L k s = Inl RecursionError"
| "update_etc_for_project (Suc n) L k s = update_etc_for_project_body (toggle_timer n L) k s"

subsection \<open>The other handlers\<close>

text \<open>\<^verbatim>\<open>update_all_etcs()\<close>, the slot of the 100 ms timer.\<close>

fun update_each :: "(string \<Rightarrow> handler) \<Rightarrow> string list \<Rightarrow> handler" where
  "update_each update_etc [] s = Inr s"
| "update_each update_etc (k # ks) s = and_then (update_etc k s) (update_each update_etc ks)"

definition update_all_etcs :: "nat \<Rightarrow> pylib \<Rightarrow> handler" where
  "update_all_etcs n L s =
     (case n of 0 \<Rightarrow> Inl RecursionError
      | Suc m \<Rightarrow> update_each (update_etc_for_project m L) (map id_of (projects s)) s)"

text \<open>\<^verbatim>\<open>_on_project_name_changed()\<close>, the slot of the name field's \<^verbatim>\<open>textChanged\<close>.\<close>

definition on_project_name_changed :: "pylib \<Rightarrow> handler" where
  "on_project_name_changed L s =
     (case selected s of
        None \<Rightarrow> Inr s
      | Some k \<Rightarrow>
          (let new_name = project_name_input s in
           if \<not> is_blank L new_name then
             (case dict_get k (projects s) of
                None \<Rightarrow> Inl KeyError
              | Some project \<Rightarrow>
                  (let s1 = modify k (\<lambda>p. p\<lparr>name := new_name\<rparr>) s in
                   case list_current_row s1 of
                     None \<Rightarrow> Inr s1
                   | Some row \<Rightarrow>
                       Inr (s1\<lparr>project_list_widget :=
                               (project_list_widget s1)[row := (new_name, snd (project_list_widget s1 ! row))]\<rparr>)))
           else Inr s))"

definition set_name_text :: "pylib \<Rightarrow> string \<Rightarrow> handler" where
  "set_name_text L t s =
     (if project_name_input s = t then Inr s
      else on_project_name_changed L (s\<lparr>project_name_input := t\<rparr>))"

text \<open>
  \<^verbatim>\<open>_on_project_description_changed()\<close>, and \<^verbatim>\<open>QTextEdit.setText\<close>, which emits
  \<^verbatim>\<open>textChanged\<close>.
\<close>

definition on_project_description_changed :: handler where
  "on_project_description_changed s =
     (case selected s of
        None \<Rightarrow> Inr s
      | Some k \<Rightarrow>
          (case dict_get k (projects s) of
             None \<Rightarrow> Inl KeyError
           | Some project \<Rightarrow> Inr (modify k (\<lambda>p. p\<lparr>description := project_description_input s\<rparr>) s)))"

definition set_description_text :: "string \<Rightarrow> handler" where
  "set_description_text t s = on_project_description_changed (s\<lparr>project_description_input := t\<rparr>)"

text \<open>A read of the object under key \<open>k\<close>, at the moment of the read.\<close>

definition with_project :: "string \<Rightarrow> (project \<Rightarrow> handler) \<Rightarrow> handler" where
  "with_project k f s = (case dict_get k (projects s) of None \<Rightarrow> Inl KeyError | Some p \<Rightarrow> f p s)"

definition show_button :: "project \<Rightarrow> handler" where
  "show_button p s =
     Inr (if is_running p
          then s\<lparr>start_timer_button := ''Stop Timer'', button_running := True\<rparr>
          else s\<lparr>start_timer_button := ''Start Timer'', button_running := False\<rparr>)"

text \<open>
  \<^verbatim>\<open>select_project_from_list(current_item, previous_item)\<close>, lines 521 to 563;
  \<open>current_item\<close> is the id that the item carries.
\<close>

definition select_project_from_list :: "nat \<Rightarrow> pylib \<Rightarrow> string option \<Rightarrow> handler" where
  "select_project_from_list n L current_item s =
     (case n of 0 \<Rightarrow> Inl RecursionError
      | Suc m \<Rightarrow>
         (case current_item of
            None \<Rightarrow>
              and_then (set_name_text L [] (s\<lparr>current_project_id := None\<rparr>))
               (\<lambda>s1. and_then (set_description_text [] s1)
               (\<lambda>s2. and_then (setText TotalInput ''0.0'' (update_display_from_inputs m L) s2)
               (\<lambda>s3. and_then (setText CurrentInput ''0.0'' (update_display_from_inputs m L) s3)
               (\<lambda>s4. Inr (s4\<lparr>etc_label := ''ETC: --:--:--'', percentage_label := ''0.0%'',
                              progress_bar := 0, start_timer_button := ''Start Timer'',
                              button_running := False\<rparr>)))))
          | Some project_id \<Rightarrow>
              if Some project_id = current_project_id s then Inr s
              else
                (let s0 = s\<lparr>current_project_id := Some project_id\<rparr> in
                 and_then (with_project project_id (\<lambda>p. set_name_text L (name p)) s0)
                  (\<lambda>s1. and_then (with_project project_id (\<lambda>p. set_description_text (description p)) s1)
                  (\<lambda>s2. and_then
                     (with_project project_id
                        (\<lambda>p. setText TotalInput (format_1f L (total_units p)) (update_display_from_inputs m L)) s2)
                  (\<lambda>s3. and_then
                     (with_project project_id
                        (\<lambda>p. setText CurrentInput (format_1f L (current_units p)) (update_display_from_inputs m L)) s3)
                  (\<lambda>s4. and_then (with_project project_id show_button s4)
                     (update_display_from_inputs m L))))))))"

text \<open>The dataclass's constructor with its defaults.\<close>

definition Project :: "string \<Rightarrow> string \<Rightarrow> project" where
  "Project i nm =
     \<lparr>id_of = i, name = nm, total_units = 100, current_units = 0, start_time = None,
      is_running = False, elapsed_at_pause = 0, description = []\<rparr>"

text \<open>
  \<^verbatim>\<open>add_new_project()\<close>, lines 467 to 476. \<^verbatim>\<open>setCurrentItem\<close> makes the new item
  the current one, which emits \<^verbatim>\<open>currentItemChanged\<close>.
\<close>

definition add_new_project :: "nat \<Rightarrow> pylib \<Rightarrow> handler" where
  "add_new_project n L s =
     (case n of 0 \<Rightarrow> Inl RecursionError
      | Suc m \<Rightarrow>
         (let (i, s1) = uuid4 s;
              new_project = Project i (''New Project '' @ digits (length (projects s1) + 1));
              s2 = s1\<lparr>projects := dict_set new_project (projects s1)\<rparr>;
              s3 = s2\<lparr>project_list_widget := project_list_widget s2 @ [(name new_project, id_of new_project)]\<rparr>;
              s4 = s3\<lparr>list_current_row := Some (length (project_list_widget s3) - 1)\<rparr>
          in select_project_from_list m L (Some (id_of new_project)) s4))"

text \<open>\<^verbatim>\<open>reset_selected_project()\<close>, lines 783 to 809.\<close>

definition reset_fields :: "project \<Rightarrow> project" where
  "reset_fields p =
     p\<lparr>is_running := False, start_time := None, elapsed_at_pause := 0,
       current_units := 0, total_units := 100, description := []\<rparr>"

definition reset_selected_project :: "nat \<Rightarrow> pylib \<Rightarrow> handler" where
  "reset_selected_project n L s =
     (case n of 0 \<Rightarrow> Inl RecursionError
      | Suc m \<Rightarrow>
         (case selected s of
            None \<Rightarrow> Inr (show_message (Information ''Reset Project'' ''No project selected to reset.'') s)
          | Some k \<Rightarrow>
              and_then (with_project k (\<lambda>p s. Inr (modify k reset_fields s)) s)
               (\<lambda>s1. and_then
                  (with_project k
                     (\<lambda>p. setText CurrentInput (format_1f L (current_units p)) (update_display_from_inputs m L)) s1)
               (\<lambda>s2. and_then
                  (with_project k
                     (\<lambda>p. setText TotalInput (format_1f L (total_units p)) (update_display_from_inputs m L)) s2)
               (\<lambda>s3. and_then (with_project k (\<lambda>p. set_description_text (description p)) s3)
               (\<lambda>s4. update_display_from_inputs m L
                       (s4\<lparr>start_timer_button := ''Start Timer'', button_running := False\<rparr>)))))))"

subsection \<open>Loading and saving\<close>

text \<open>A JSON value as \<^verbatim>\<open>json.load\<close> returns it; an object keeps the file's order.\<close>

datatype json =
  JNull
  | JBool bool
  | JNum real
  | JStr string
  | JArr "json list"
  | JObj "(string \<times> json) list"

text \<open>\<^verbatim>\<open>d.get(key)\<close> on a parsed object: of a key that the file repeats, the last value.\<close>

definition py_get :: "(string \<times> json) list \<Rightarrow> string \<Rightarrow> json option" where
  "py_get kvs key = map_of (rev kvs) key"

text \<open>
  What the \<^verbatim>\<open>try\<close> block of \<^verbatim>\<open>load_projects\<close> meets: no file at the path, a
  \<^verbatim>\<open>json.JSONDecodeError\<close>, any other exception of \<^verbatim>\<open>open\<close> or \<^verbatim>\<open>json.load\<close>, or
  the parsed content.
\<close>

datatype file_read = NoFile | Undecodable | ReadError | Content json

text \<open>
  The fields of \<open>project\<close> are typed as the dataclass annotates them. The source stores
  whatever value the file holds; a value of another JSON type than the annotation is
  outside this model, and the decoders return \<open>None\<close> for it.
\<close>

definition as_str :: "json \<Rightarrow> string option" where
  "as_str j = (case j of JStr t \<Rightarrow> Some t | _ \<Rightarrow> None)"

definition as_num :: "json \<Rightarrow> real option" where
  "as_num j = (case j of JNum r \<Rightarrow> Some r | _ \<Rightarrow> None)"

definition as_bool :: "json \<Rightarrow> bool option" where
  "as_bool j = (case j of JBool b \<Rightarrow> Some b | _ \<Rightarrow> None)"

definition as_opt_num :: "json \<Rightarrow> real option option" where
  "as_opt_num j = (case j of JNull \<Rightarrow> Some None | JNum r \<Rightarrow> Some (Some r) | _ \<Rightarrow> None)"

text \<open>\<^verbatim>\<open>project_data.get(key, default)\<close>, decoded.\<close>

definition get_field :: "(string \<times> json) list \<Rightarrow> string \<Rightarrow> 'a \<Rightarrow> (json \<Rightarrow> 'a option) \<Rightarrow> 'a option" where
  "get_field kvs key dflt decode = (case py_get kvs key of None \<Rightarrow> Some dflt | Some j \<Rightarrow> decode j)"

text \<open>Lines 90 to 99: \<open>fresh\<close> is the value of \<^verbatim>\<open>str(uuid.uuid4())\<close>.\<close>

definition project_of_json :: "string \<Rightarrow> (string \<times> json) list \<Rightarrow> project option" where
  "project_of_json fresh project_data =
     Option.bind (get_field project_data ''id'' fresh as_str) (\<lambda>i.
     Option.bind (get_field project_data ''name'' ''Unnamed Project'' as_str) (\<lambda>nm.
     Option.bind (get_field project_data ''total_units'' 100 as_num) (\<lambda>tot.
     Option.bind (get_field project_data ''current_units'' 0 as_num) (\<lambda>cur.
     Option.bind (get_field project_data ''start_time'' None as_opt_num) (\<lambda>st.
     Option.bind (get_field project_data ''is_running'' False as_bool) (\<lambda>run.
     Option.bind (get_field project_data ''elapsed_at_pause'' 0 as_num) (\<lambda>el.
     Option.bind (get_field project_data ''description'' [] as_str) (\<lambda>d.
       Some \<lparr>id_of = i, name = nm, total_units = tot, current_units = cur, start_time = st,
             is_running = run, elapsed_at_pause = el, description = d\<rparr>))))))))"

text \<open>
  The loop of lines 87 to 104. The result is \<open>None\<close> when a field is outside the model,
  and otherwise the state with \<open>True\<close> when the loop ended and \<open>False\<close> when an element
  raised (\<^verbatim>\<open>AttributeError\<close>: it is not an object and has no \<^verbatim>\<open>get\<close>).
\<close>

fun load_loop :: "json list \<Rightarrow> app \<Rightarrow> (bool \<times> app) option" where
  "load_loop [] s = Some (True, s)"
| "load_loop (JObj project_data # rest) s =
     (let (fresh, s1) = uuid4 s in
      case project_of_json fresh project_data of
        None \<Rightarrow> None
      | Some project \<Rightarrow>
          load_loop rest
            (s1\<lparr>projects := dict_set project (projects s1),
                project_list_widget := project_list_widget s1 @ [(name project, id_of project)]\<rparr>))"
| "load_loop (_ # rest) s = Some (False, s)"

text \<open>
  What \<^verbatim>\<open>for project_data in raw_data\<close> iterates over: the elements of an array, the
  keys of an object, the characters of a string; \<open>None\<close> is the \<^verbatim>\<open>TypeError\<close> of a
  value that cannot be iterated.
\<close>

definition iterate :: "json \<Rightarrow> json list option" where
  "iterate raw_data =
     (case raw_data of
        JArr xs \<Rightarrow> Some xs
      | JObj kvs \<Rightarrow> Some (map (\<lambda>kv. JStr (fst kv)) kvs)
      | JStr t \<Rightarrow> Some (map (\<lambda>c. JStr [c]) t)
      | _ \<Rightarrow> None)"

definition load_failed :: "app \<Rightarrow> app" where
  "load_failed s =
     (show_message (Critical ''Load Error'' ''An unexpected error occurred while loading projects: '') s)
       \<lparr>projects := []\<rparr>"

text \<open>
  \<^verbatim>\<open>load_projects()\<close>, lines 77 to 114, from \<^verbatim>\<open>os.path.exists\<close> on. The text of
  the caught exception, which ends the critical message, is left out.
\<close>

definition load_projects :: "file_read \<Rightarrow> app \<Rightarrow> app option" where
  "load_projects file s =
     (case file of
        NoFile \<Rightarrow> Some s
      | Undecodable \<Rightarrow>
          Some ((show_message (Warning ''Load Error''
                   ''Could not decode project data from projects.json. File might be corrupted.'') s)
                 \<lparr>projects := []\<rparr>)
      | ReadError \<Rightarrow> Some (load_failed s)
      | Content raw_data \<Rightarrow>
          (case iterate raw_data of
             None \<Rightarrow> Some (load_failed s)
           | Some xs \<Rightarrow>
               (case load_loop xs s of
                  None \<Rightarrow> None
                | Some (ok, s1) \<Rightarrow> Some (if ok then s1 else load_failed s1))))"

text \<open>\<^verbatim>\<open>asdict(project)\<close>\<close>

definition asdict :: "project \<Rightarrow> json" where
  "asdict p =
     JObj [(''id'', JStr (id_of p)), (''name'', JStr (name p)),
           (''total_units'', JNum (total_units p)), (''current_units'', JNum (current_units p)),
           (''start_time'', case start_time p of None \<Rightarrow> JNull | Some t \<Rightarrow> JNum t),
           (''is_running'', JBool (is_running p)),
           (''elapsed_at_pause'', JNum (elapsed_at_pause p)),
           (''description'', JStr (description p))]"

text \<open>
  \<^verbatim>\<open>save_projects()\<close>, lines 116 to 129: the content of the file after a write that
  succeeded (\<open>None\<close> after one that failed), and the state.
\<close>

definition save_projects :: "bool \<Rightarrow> app \<Rightarrow> json option \<times> app" where
  "save_projects write_ok s =
     (let projects_to_save = JArr (map asdict (projects s)) in
      if write_ok then (Some projects_to_save, s)
      else (None, show_message (Critical ''Save Error'' ''An error occurred while saving projects: '') s))"

text \<open>The state that \<^verbatim>\<open>__init__\<close> has built when it calls \<^verbatim>\<open>load_projects\<close>.\<close>

definition initial_app :: "(nat \<Rightarrow> real) \<Rightarrow> (nat \<Rightarrow> string) \<Rightarrow> app" where
  "initial_app clk ids =
     \<lparr>projects = [], current_project_id = None, project_list_widget = [], list_current_row = None,
      project_name_input = [], project_description_input = [],
      total_value_input = ''100.0'', current_value_input = ''0.0'',
      progress_bar = 0, percentage_label = ''0.0%'', etc_label = ''ETC: --:--:--'',
      start_timer_button = ''Start Timer'', button_running = False, messages = [],
      clock = clk, clock_reads = 0, uuids = ids, uuid_calls = 0\<rparr>"

subsection \<open>A library for decimal texts\<close>

text \<open>
  \<^verbatim>\<open>float\<close>, \<^verbatim>\<open>f"{v:.1f}"\<close> and \<^verbatim>\<open>strip\<close> on plain decimal texts (an optional sign,
  digits, an optional point and digits, blanks around them). The concrete runs below use
  it; the general theorems hold for every library.
\<close>

definition digit_value :: "char \<Rightarrow> nat option" where
  "digit_value c =
     (if c \<in> set ''0123456789''
      then Some (length (takeWhile (\<lambda>d. d \<noteq> c) ''0123456789'')) else None)"

fun digits_value :: "nat \<Rightarrow> string \<Rightarrow> nat option" where
  "digits_value acc [] = Some acc"
| "digits_value acc (c # cs) =
     (case digit_value c of None \<Rightarrow> None | Some d \<Rightarrow> digits_value (10 * acc + d) cs)"

definition strip :: "string \<Rightarrow> string" where
  "strip t = rev (dropWhile (\<lambda>c. c = CHR '' '') (rev (dropWhile (\<lambda>c. c = CHR '' '') t)))"

definition unsigned_decimal :: "string \<Rightarrow> real option" where
  "unsigned_decimal t =
     (let ip = takeWhile (\<lambda>c. c \<noteq> CHR ''.'') t;
          fp = drop 1 (dropWhile (\<lambda>c. c \<noteq> CHR ''.'') t)
      in if ip @ fp = [] then None
         else case (digits_value 0 ip, digits_value 0 fp) of
                (Some a, Some b) \<Rightarrow> Some (real a + real b / 10 ^ length fp)
              | _ \<Rightarrow> None)"

definition decimal_float :: "string \<Rightarrow> real option" where
  "decimal_float t =
     (case strip t of
        [] \<Rightarrow> None
      | c # cs \<Rightarrow>
          if c = CHR ''-'' then map_option uminus (unsigned_decimal cs)
          else if c = CHR ''+'' then unsigned_decimal cs
          else unsigned_decimal (c # cs))"

text \<open>One decimal, the nearest; a tie goes to the even last digit.\<close>

definition round_tenths :: "real \<Rightarrow> nat" where
  "round_tenths x =
     (let f = \<lfloor>x * 10\<rfloor>; r = x * 10 - of_int f
      in nat (if r < 1 / 2 then f else if r > 1 / 2 then f + 1 else if even f then f else f + 1))"

definition decimal_1f :: "real \<Rightarrow> string" where
  "decimal_1f v =
     (let m = round_tenths \<bar>v\<bar>
      in (if v < 0 then ''-'' else []) @ digits (m div 10) @ ''.'' @ digits (m mod 10))"

definition decimal_lib :: pylib where
  "decimal_lib = \<lparr>float_of = decimal_float, format_1f = decimal_1f, is_blank = (\<lambda>t. strip t = [])\<rparr>"

subsection \<open>States for the concrete runs\<close>

text \<open>A project with the id \<open>a\<close>, and the window that shows it as the only project.\<close>

definition a_project :: "real \<Rightarrow> real \<Rightarrow> real option \<Rightarrow> bool \<Rightarrow> real \<Rightarrow> project" where
  "a_project tot cur st run el =
     \<lparr>id_of = ''a'', name = ''A'', total_units = tot, current_units = cur, start_time = st,
      is_running = run, elapsed_at_pause = el, description = []\<rparr>"

text \<open>The clock reads 1000, 1001, ... seconds.\<close>

definition showing :: "project \<Rightarrow> string \<Rightarrow> string \<Rightarrow> app" where
  "showing p total_text current_text =
     \<lparr>projects = [p], current_project_id = Some (id_of p),
      project_list_widget = [(name p, id_of p)], list_current_row = Some 0,
      project_name_input = name p, project_description_input = description p,
      total_value_input = total_text, current_value_input = current_text,
      progress_bar = 0, percentage_label = ''0.0%'', etc_label = ''ETC: --:--:--'',
      start_timer_button = (if is_running p then ''Stop Timer'' else ''Start Timer''),
      button_running = is_running p, messages = [],
      clock = (\<lambda>k. 1000 + real k), clock_reads = 0, uuids = (\<lambda>k. ''u'' @ digits k), uuid_calls = 0\<rparr>"

text \<open>
  A running project that is complete and displayed; the four methods only ever change
  these four fields of the state.
\<close>

definition complete_cycle :: "nat \<Rightarrow> string \<Rightarrow> int \<Rightarrow> string \<Rightarrow> app" where
  "complete_cycle r e b pl =
     (showing (a_project 100 100 (Some 990) True 0) ''100.0'' ''100.0'')
       \<lparr>clock_reads := r, etc_label := e, progress_bar := b, percentage_label := pl\<rparr>"

text \<open>
  A running project with total 100 and current 50, displayed, whose current field has
  been edited to 150.
\<close>

definition overrun_edit :: app where
  "overrun_edit = showing (a_project 100 50 (Some 990) True 0) ''100.0'' ''150''"

text \<open>The states that the methods reach from \<open>overrun_edit\<close> and then never leave.\<close>

definition overrun_cycle :: "msgbox list \<Rightarrow> nat \<Rightarrow> string \<Rightarrow> int \<Rightarrow> string \<Rightarrow> app" where
  "overrun_cycle ms r e b pl =
     (showing (a_project 150 150 (Some 990) True 0) ''150.0'' ''150'')
       \<lparr>clock_reads := r, etc_label := e, progress_bar := b, percentage_label := pl,
        messages := ms\<rparr>"

subsection \<open>Vocabulary of the properties\<close>

text \<open>
  The timer invariant of the data model: a project is running exactly when it has a
  start time.
\<close>

definition timer_inv :: "app \<Rightarrow> bool" where
  "timer_inv s = (\<forall>p \<in> set (projects s). is_running p \<longleftrightarrow> start_time p \<noteq> None)"

text \<open>A handler keeps a property of the state when every run that returns keeps it.\<close>

definition keeps :: "(app \<Rightarrow> bool) \<Rightarrow> handler \<Rightarrow> bool" where
  "keeps I f = (\<forall>s s'. I s \<longrightarrow> f s = Inr s' \<longrightarrow> I s')"

text \<open>
  The events of the window and the slot that each is connected to (lines 49, 173, 200,
  215, 230, 231, 246, 247, 280 and 286); \<open>n\<close> is the recursion limit. A text that the
  user edits changes as \<^verbatim>\<open>setText\<close> changes it.
\<close>

datatype event =
  ToggleTimer "string option"
  | EditingFinished line_edit
  | TextEdited line_edit string
  | NameEdited string
  | DescriptionEdited string
  | AddProject
  | ResetProject
  | PollTick

definition handle :: "nat \<Rightarrow> pylib \<Rightarrow> event \<Rightarrow> handler" where
  "handle n L ev s =
     (case ev of
        ToggleTimer arg \<Rightarrow> toggle_timer n L arg s
      | EditingFinished TotalInput \<Rightarrow>
          finalize_input_editing n L TotalInput TotalUnits ''Total Work Units'' True s
      | EditingFinished CurrentInput \<Rightarrow>
          finalize_input_editing n L CurrentInput CurrentUnits ''Current Work Units'' False s
      | TextEdited le t \<Rightarrow> setText le t (update_display_from_inputs n L) s
      | NameEdited t \<Rightarrow> set_name_text L t s
      | DescriptionEdited t \<Rightarrow> set_description_text t s
      | AddProject \<Rightarrow> add_new_project n L s
      | ResetProject \<Rightarrow> reset_selected_project n L s
      | PollTick \<Rightarrow> update_all_etcs n L s)"

text \<open>
  An object of the file whose \<^verbatim>\<open>is_running\<close> is true exactly when its
  \<^verbatim>\<open>start_time\<close> is a number, and a file all of whose objects are so.
\<close>

definition timer_fields_agree :: "(string \<times> json) list \<Rightarrow> bool" where
  "timer_fields_agree kvs =
     ((case py_get kvs ''is_running'' of Some (JBool True) \<Rightarrow> True | _ \<Rightarrow> False)
      = (case py_get kvs ''start_time'' of Some (JNum t) \<Rightarrow> True | _ \<Rightarrow> False))"

definition file_agrees :: "file_read \<Rightarrow> bool" where
  "file_agrees fl =
     (case fl of
        Content raw_data \<Rightarrow>
          (case iterate raw_data of
             None \<Rightarrow> True
           | Some xs \<Rightarrow> list_all (\<lambda>x. case x of JObj kvs \<Rightarrow> timer_fields_agree kvs | _ \<Rightarrow> True) xs)
      | _ \<Rightarrow> True)"

text \<open>A sequence of events, each handled with the recursion limit \<open>n\<close>.\<close>

fun run_events :: "nat \<Rightarrow> pylib \<Rightarrow> event list \<Rightarrow> handler" where
  "run_events n L [] s = Inr s"
| "run_events n L (ev # evs) s = and_then (handle n L ev s) (run_events n L evs)"

text \<open>
  A running, displayed project whose total field has been edited to 0.0 and whose
  current field has been edited to 5; the methods change only these five fields.
\<close>

definition zero_total_cycle :: "msgbox list \<Rightarrow> nat \<Rightarrow> string \<Rightarrow> int \<Rightarrow> string \<Rightarrow> app" where
  "zero_total_cycle ms r e b pl =
     (showing (a_project 0 5 (Some 990) True 0) ''0.0'' ''5'')
       \<lparr>clock_reads := r, etc_label := e, progress_bar := b, percentage_label := pl,
        messages := ms\<rparr>"

text \<open>
  The part of a record that the timer owns, and the relation between two states of
  which the second has the same timer parts, clock, number of clock reads and selection
  as the first, and the messages of the first followed by further ones.
\<close>

definition timer_part :: "project \<Rightarrow> string \<times> bool \<times> real option \<times> real" where
  "timer_part p = (id_of p, is_running p, start_time p, elapsed_at_pause p)"

definition calm :: "app \<Rightarrow> app \<Rightarrow> bool" where
  "calm s s' =
     (map timer_part (projects s') = map timer_part (projects s)
      \<and> clock s' = clock s \<and> clock_reads s' = clock_reads s
      \<and> current_project_id s' = current_project_id s
      \<and> (\<exists>ms. messages s' = messages s @ ms))"

text \<open>The three messages with which \<^verbatim>\<open>toggle_timer\<close> refuses to start (lines 749, 752 and 755).\<close>

definition start_refusals :: "msgbox list" where
  "start_refusals =
     [Warning ''Timer Error'' ''Total Work Units must be a positive number to start the timer.'',
      Warning ''Timer Error'' ''Current Work Units cannot be negative.'',
      Information ''Timer Info''
        ''Current Work Units already meet or exceed Total. Project is complete. No need to start timer.'']"

section \<open>Properties\<close>

subsection \<open>Evaluation of the decimal library\<close>

lemma strip_plain [simp]:
  "strip ''100.0'' = ''100.0''" "strip ''-5.0'' = ''-5.0''" "strip ''150'' = ''150''"
  "strip ''150.0'' = ''150.0''" "strip ''50.0'' = ''50.0''" "strip ''50'' = ''50''"
  "strip ''80'' = ''80''" "strip ''80.0'' = ''80.0''"
  by (simp_all add: strip_def)

lemma decimal_float_plain [simp]:
  "decimal_float ''100.0'' = Some 100" "decimal_float ''-5.0'' = Some (- 5)"
  "decimal_float ''150'' = Some 150" "decimal_float ''150.0'' = Some 150"
  "decimal_float ''50.0'' = Some 50" "decimal_float ''50'' = Some 50"
  "decimal_float ''80'' = Some 80" "decimal_float ''80.0'' = Some 80"
  by (simp_all add: decimal_float_def strip_def unsigned_decimal_def digit_value_def)

lemma decimal_zero_five [simp]:
  "strip ''0.0'' = ''0.0''" "strip ''5'' = ''5''"
  "decimal_float ''0.0'' = Some 0" "decimal_float ''5'' = Some 5"
  by (simp_all add: decimal_float_def strip_def unsigned_decimal_def digit_value_def)

lemma decimal_1f_plain [simp]:
  "decimal_1f 100 = ''100.0''" "decimal_1f (- 5) = ''-5.0''" "decimal_1f 150 = ''150.0''"
  "decimal_1f 50 = ''50.0''" "decimal_1f 80 = ''80.0''" "decimal_1f 0 = ''0.0''"
  by (simp_all add: decimal_1f_def round_tenths_def digits.simps)

lemma decimal_lib_simps [simp]:
  "float_of decimal_lib = decimal_float" "format_1f decimal_lib = decimal_1f"
  "is_blank decimal_lib t = (strip t = [])"
  by (simp_all add: decimal_lib_def)

subsection \<open>The percentage\<close>

text \<open>
  C1 (amended). The percentage that is displayed is 0 when total \<le> 0 and otherwise
  current / total * 100 capped at 100 from above only. For total > 0 and
  0 \<le> current \<le> total it equals 100 * current / total, and it lies in [0, 100] whenever
  current is not negative, also when current exceeds total.
\<close>

theorem displayed_percentage_capped_above:
  "displayed_percentage c t = (if t \<le> 0 then 0 else min (c / t * 100) 100)
   \<and> (0 < t \<and> 0 \<le> c \<and> c \<le> t \<longrightarrow> displayed_percentage c t = 100 * c / t)
   \<and> (0 \<le> c \<longrightarrow> 0 \<le> displayed_percentage c t \<and> displayed_percentage c t \<le> 100)"
  by (auto simp: displayed_percentage_def progress_percentage_def min_def field_simps)

theorem displayed_percentage_capped_above_witness:
  "displayed_percentage 50 100 = 50 \<and> displayed_percentage 150 100 = 100
   \<and> displayed_percentage 50 0 = 0"
  using displayed_percentage_capped_above [of 50 100]
    displayed_percentage_capped_above [of 150 100] displayed_percentage_capped_above [of 50 0]
  by simp

text \<open>
  C1 as stated fails for a negative current value (a file can hold one, and selecting
  the project puts it into the field): nothing clamps the percentage from below, and
  the label reads -5.0%.
\<close>

theorem displayed_percentage_negative_counterexample:
  "displayed_percentage (- 5) 100 = - 5
   \<and> map_sum id percentage_label
        (update_display_from_inputs (Suc (Suc 0)) decimal_lib
           (showing (a_project 100 (- 5) None False 0) ''100.0'' ''-5.0'')) = Inr ''-5.0%''"
  by (simp add: update_display_from_inputs_body_def update_etc_for_project_body_def showing_def
      a_project_def selected_def falsy_def get_safe_value_def modify_def displayed_percentage_def
      progress_percentage_def set_etc_def)

subsection \<open>Loading and saving\<close>




text \<open>
  C8. A file that cannot be decoded leaves the store empty and reports a decode error
  (a warning); any other failure of reading leaves the store empty and reports an error;
  a missing file is no error: nothing is reported and the store stays as it is, which at
  startup is empty.
\<close>

theorem load_failures_leave_store_empty:
  "load_projects Undecodable s =
     Some (s\<lparr>messages := messages s @ [Warning ''Load Error''
              ''Could not decode project data from projects.json. File might be corrupted.''],
            projects := []\<rparr>)
   \<and> load_projects ReadError s =
     Some (s\<lparr>messages := messages s @ [Critical ''Load Error''
              ''An unexpected error occurred while loading projects: ''],
            projects := []\<rparr>)
   \<and> load_projects NoFile s = Some s
   \<and> projects (initial_app clk ids) = []"
  by (simp add: load_projects_def load_failed_def show_message_def initial_app_def)

theorem load_failures_leave_store_empty_witness:
  "map_option projects (load_projects Undecodable (showing (a_project 100 0 None False 0) ''100.0'' ''0.0'')) = Some []
   \<and> map_option projects (load_projects ReadError (showing (a_project 100 0 None False 0) ''100.0'' ''0.0'')) = Some []
   \<and> map_option projects (load_projects NoFile (initial_app (\<lambda>k. 0) (\<lambda>k. ''u0''))) = Some []"
  using load_failures_leave_store_empty [of "showing (a_project 100 0 None False 0) ''100.0'' ''0.0''" "\<lambda>k. 0" "\<lambda>k. ''u0''"]
    load_failures_leave_store_empty [of "initial_app (\<lambda>k. 0) (\<lambda>k. ''u0'')" "\<lambda>k. 0" "\<lambda>k. ''u0''"]
  by simp

lemma project_of_json_asdict:
  "asdict p = JObj kvs \<Longrightarrow> project_of_json fresh kvs = Some p"
  by (cases "start_time p")
     (auto simp: asdict_def project_of_json_def get_field_def py_get_def as_str_def as_num_def
      as_bool_def as_opt_num_def)

lemma dict_set_append: "id_of p \<notin> id_of ` set qs \<Longrightarrow> dict_set p qs = qs @ [p]"
  by (induction qs) auto

lemma load_loop_asdict:
  "distinct (map id_of (projects s @ ps)) \<Longrightarrow>
   load_loop (map asdict ps) s =
     Some (True, s\<lparr>uuid_calls := uuid_calls s + length ps,
                  projects := projects s @ ps,
                  project_list_widget := project_list_widget s @ map (\<lambda>p. (name p, id_of p)) ps\<rparr>)"
proof (induction ps arbitrary: s)
  case Nil
  then show ?case by simp
next
  case (Cons p ps)
  obtain kvs where kvs: "asdict p = JObj kvs"
    by (simp add: asdict_def)
  have fresh: "id_of p \<notin> id_of ` set (projects s)"
    using Cons.prems by auto
  let ?s1 = "s\<lparr>uuid_calls := Suc (uuid_calls s), projects := projects s @ [p],
      project_list_widget := project_list_widget s @ [(name p, id_of p)]\<rparr>"
  have "distinct (map id_of (projects ?s1 @ ps))"
    using Cons.prems by simp
  from Cons.IH [OF this]
  have "load_loop (map asdict ps) ?s1 =
      Some (True, ?s1\<lparr>uuid_calls := uuid_calls ?s1 + length ps, projects := projects ?s1 @ ps,
        project_list_widget := project_list_widget ?s1 @ map (\<lambda>p. (name p, id_of p)) ps\<rparr>)" .
  moreover have "load_loop (map asdict (p # ps)) s = load_loop (map asdict ps) ?s1"
    using kvs fresh by (simp add: uuid4_def project_of_json_asdict dict_set_append)
  ultimately show ?case by simp
qed

text \<open>
  C9. Saving a store and loading the file at the next startup gives the same projects in
  the same order: the same number of records, every field of every record equal, the ids
  kept. The store is a dict, so its keys are distinct; the list that models it needs
  this as a hypothesis.
\<close>

theorem save_then_load_roundtrip:
  "distinct (map id_of (projects s)) \<Longrightarrow>
   \<exists>file s'. save_projects True s = (Some file, s)
      \<and> load_projects (Content file) (initial_app clk ids) = Some s'
      \<and> projects s' = projects s"
  using load_loop_asdict [of "initial_app clk ids" "projects s"]
  by (simp add: save_projects_def load_projects_def iterate_def initial_app_def)

theorem save_then_load_roundtrip_witness:
  "distinct (map id_of (projects (showing (a_project 100 50 (Some 7) True 3) ''100.0'' ''50.0'')))
   \<and> (\<exists>file s'. save_projects True (showing (a_project 100 50 (Some 7) True 3) ''100.0'' ''50.0'') =
          (Some file, showing (a_project 100 50 (Some 7) True 3) ''100.0'' ''50.0'')
        \<and> load_projects (Content file) (initial_app (\<lambda>k. 0) (\<lambda>k. ''u0'')) = Some s'
        \<and> projects s' = [a_project 100 50 (Some 7) True 3])"
proof -
  have d: "distinct (map id_of (projects (showing (a_project 100 50 (Some 7) True 3) ''100.0'' ''50.0'')))"
    by (simp add: showing_def)
  show ?thesis
    using d save_then_load_roundtrip [OF d, of "\<lambda>k. 0" "\<lambda>k. ''u0''"]
    by (simp add: showing_def)
qed

subsection \<open>Runs of the timer methods\<close>

lemma isclose_zero [simp]: "isclose a 0 \<longleftrightarrow> a = 0"
  by (auto simp: isclose_def max_def abs_if)

lemmas run_defs = toggle_timer_body_def finalize_inputs_def start_or_stop_def
  finalize_input_editing_body_def store_input_def validate_def
  update_display_from_inputs_body_def update_etc_for_project_body_def
  selected_def falsy_def get_safe_value_def modify_def displayed_percentage_def
  progress_percentage_def set_etc_def set_button_def and_then_def setText_def line_text_def
  put_text_def getattr_def setattr_def refetch_def start_timer_def stop_timer_def time_time_def
  show_message_def py_div_def py_int_def

text \<open>
  C5 (the code departs from it). A displayed project with total 100 and current 50 has
  been running since second 990; it is stopped by \<^verbatim>\<open>toggle_timer\<close> at second 1002.
  It is then not running and has 12 seconds of accumulated time, but the label reads
  "ETC: --:--:--" and not "ETC: Paused (00:00:12 elapsed)": the stop clears
  \<^verbatim>\<open>start_time\<close>, which is what \<^verbatim>\<open>update_etc_for_project\<close> tests.
\<close>

theorem stopped_project_shows_no_estimate:
  "map_sum id (\<lambda>s. (map is_running (projects s), map start_time (projects s),
                     map elapsed_at_pause (projects s), etc_label s))
     (toggle_timer (Suc (Suc (Suc (Suc n)))) decimal_lib (Some ''a'')
        (showing (a_project 100 50 (Some 990) True 0) ''100.0'' ''50.0''))
   = Inr ([False], [None], [12], ''ETC: --:--:--'')"
  by (simp add: run_defs showing_def a_project_def)

text \<open>The four methods never return from a state of \<open>complete_cycle\<close>.\<close>

lemma complete_cycle_never_returns:
  "toggle_timer n decimal_lib (Some ''a'') (complete_cycle r e b pl) = Inl RecursionError
   \<and> finalize_input_editing n decimal_lib TotalInput TotalUnits ''Total Work Units'' True
        (complete_cycle r e b pl) = Inl RecursionError
   \<and> update_display_from_inputs n decimal_lib (complete_cycle r e b pl) = Inl RecursionError
   \<and> update_etc_for_project n decimal_lib ''a'' (complete_cycle r e b pl) = Inl RecursionError"
proof (induction n arbitrary: r e b pl)
  case 0
  show ?case by simp
next
  case (Suc n)
  have T: "toggle_timer (Suc n) decimal_lib (Some ''a'') (complete_cycle r e b pl) = Inl RecursionError"
    using Suc.IH [of r e b pl]
    by (simp add: toggle_timer_body_def finalize_inputs_def and_then_def complete_cycle_def
        showing_def a_project_def)
  have F: "finalize_input_editing (Suc n) decimal_lib TotalInput TotalUnits ''Total Work Units'' True
        (complete_cycle r e b pl) = Inl RecursionError"
  proof -
    have "finalize_input_editing (Suc n) decimal_lib TotalInput TotalUnits ''Total Work Units'' True
        (complete_cycle r e b pl) = update_display_from_inputs n decimal_lib (complete_cycle r e b pl)"
      by (simp add: run_defs complete_cycle_def showing_def a_project_def)
    then show ?thesis using Suc.IH [of r e b pl] by simp
  qed
  have U: "update_display_from_inputs (Suc n) decimal_lib (complete_cycle r e b pl) = Inl RecursionError"
  proof -
    have "update_display_from_inputs (Suc n) decimal_lib (complete_cycle r e b pl)
       = update_etc_for_project n decimal_lib ''a'' (complete_cycle r e 100 ''100.0%'')"
      by (simp add: run_defs complete_cycle_def showing_def a_project_def)
    then show ?thesis using Suc.IH [of r e 100 "''100.0%''"] by simp
  qed
  have E: "update_etc_for_project (Suc n) decimal_lib ''a'' (complete_cycle r e b pl) = Inl RecursionError"
  proof -
    have "update_etc_for_project (Suc n) decimal_lib ''a'' (complete_cycle r e b pl)
       = toggle_timer n decimal_lib (Some ''a'') (complete_cycle (Suc r) ''ETC: Complete!'' b pl)"
      by (simp add: run_defs complete_cycle_def showing_def a_project_def)
    then show ?thesis using Suc.IH [of "Suc r" "''ETC: Complete!''" b pl] by simp
  qed
  from T F U E show ?case by simp
qed

lemma dict_get_id: "dict_get k ps = Some p \<Longrightarrow> id_of p = k"
  by (induction ps) (auto split: if_splits)

text \<open>
  A running project that is complete and not the displayed one is stopped by the ETC
  computation: the path that works.
\<close>

lemma update_etc_stops_undisplayed:
  assumes "dict_get k (projects s) = Some p" and "Some k \<noteq> current_project_id s" and "k \<noteq> []"
    and "is_running p" and "start_time p = Some st"
    and "0 < total_units p" and "total_units p \<le> current_units p"
    and "elapsed_at_pause p + (clock s (clock_reads s) - st) \<noteq> 0"
  shows "update_etc_for_project (Suc (Suc n)) L k s =
    Inr (modify k (\<lambda>q. q\<lparr>elapsed_at_pause := elapsed_at_pause q + (clock s (Suc (clock_reads s)) - st),
                          is_running := False, start_time := None\<rparr>)
           (s\<lparr>clock_reads := Suc (Suc (clock_reads s))\<rparr>))"
proof -
  have k: "id_of p = k"
    using assms(1) by (rule dict_get_id)
  have c: "current_units p \<noteq> 0"
    using assms(6,7) by simp
  show ?thesis
    using assms k c
    by (simp add: update_etc_for_project_body_def toggle_timer_body_def finalize_inputs_def
        start_or_stop_def stop_timer_def set_etc_def set_button_def time_time_def py_div_def
        and_then_def modify_def)
qed

text \<open>
  C2 (the code departs from it). The displayed project is running and complete
  (current = total = 100, 10 seconds elapsed). Whatever the recursion limit \<open>n\<close>, the ETC
  computation, and so the poll tick, ends in \<^verbatim>\<open>RecursionError\<close> and the timer is never
  stopped: \<^verbatim>\<open>toggle_timer\<close> finalizes the fields of the displayed project first, which
  updates the display, which computes the ETC, which calls \<^verbatim>\<open>toggle_timer\<close>.
\<close>

theorem update_etc_displayed_complete_recursion_error:
  "update_etc_for_project n decimal_lib ''a''
     (showing (a_project 100 100 (Some 990) True 0) ''100.0'' ''100.0'') = Inl RecursionError
   \<and> update_all_etcs (Suc n) decimal_lib
     (showing (a_project 100 100 (Some 990) True 0) ''100.0'' ''100.0'') = Inl RecursionError"
proof -
  let ?s = "showing (a_project 100 100 (Some 990) True 0) ''100.0'' ''100.0''"
  have eq: "?s = complete_cycle 0 ''ETC: --:--:--'' 0 ''0.0%''"
    by (simp add: complete_cycle_def showing_def)
  have ids: "map id_of (projects ?s) = [''a'']"
    by (simp add: showing_def a_project_def)
  have E: "update_etc_for_project m decimal_lib ''a'' ?s = Inl RecursionError" for m
    unfolding eq using complete_cycle_never_returns by blast
  show ?thesis
    unfolding update_all_etcs_def ids using E by (simp add: and_then_def)
qed

text \<open>The four methods never return from a state of \<open>overrun_cycle\<close>.\<close>

lemma overrun_cycle_never_returns:
  "toggle_timer n decimal_lib (Some ''a'') (overrun_cycle ms r e b pl) = Inl RecursionError
   \<and> finalize_input_editing n decimal_lib TotalInput TotalUnits ''Total Work Units'' True
        (overrun_cycle ms r e b pl) = Inl RecursionError
   \<and> update_display_from_inputs n decimal_lib (overrun_cycle ms r e b pl) = Inl RecursionError
   \<and> update_etc_for_project n decimal_lib ''a'' (overrun_cycle ms r e b pl) = Inl RecursionError"
proof (induction n arbitrary: r e b pl)
  case 0
  show ?case by simp
next
  case (Suc n)
  have T: "toggle_timer (Suc n) decimal_lib (Some ''a'') (overrun_cycle ms r e b pl) = Inl RecursionError"
    using Suc.IH [of r e b pl]
    by (simp add: toggle_timer_body_def finalize_inputs_def and_then_def overrun_cycle_def
        showing_def a_project_def)
  have F: "finalize_input_editing (Suc n) decimal_lib TotalInput TotalUnits ''Total Work Units'' True
        (overrun_cycle ms r e b pl) = Inl RecursionError"
  proof -
    have "finalize_input_editing (Suc n) decimal_lib TotalInput TotalUnits ''Total Work Units'' True
        (overrun_cycle ms r e b pl) = update_display_from_inputs n decimal_lib (overrun_cycle ms r e b pl)"
      by (simp add: run_defs overrun_cycle_def showing_def a_project_def)
    then show ?thesis using Suc.IH [of r e b pl] by simp
  qed
  have U: "update_display_from_inputs (Suc n) decimal_lib (overrun_cycle ms r e b pl) = Inl RecursionError"
  proof -
    have "update_display_from_inputs (Suc n) decimal_lib (overrun_cycle ms r e b pl)
       = update_etc_for_project n decimal_lib ''a'' (overrun_cycle ms r e 100 ''100.0%'')"
      by (simp add: run_defs overrun_cycle_def showing_def a_project_def)
    then show ?thesis using Suc.IH [of r e 100 "''100.0%''"] by simp
  qed
  have E: "update_etc_for_project (Suc n) decimal_lib ''a'' (overrun_cycle ms r e b pl) = Inl RecursionError"
  proof -
    have "update_etc_for_project (Suc n) decimal_lib ''a'' (overrun_cycle ms r e b pl)
       = toggle_timer n decimal_lib (Some ''a'') (overrun_cycle ms (Suc r) ''ETC: Complete!'' b pl)"
      by (simp add: run_defs overrun_cycle_def showing_def a_project_def)
    then show ?thesis using Suc.IH [of "Suc r" "''ETC: Complete!''" b pl] by simp
  qed
  from T F U E show ?case by simp
qed

text \<open>
  The finalization of the total field returns to a state of \<open>zero_total_cycle\<close>, or the
  recursion limit ends it.
\<close>

lemma finalize_total_zero:
  "finalize_input_editing n decimal_lib TotalInput TotalUnits ''Total Work Units'' True
      (zero_total_cycle ms r e b pl) = Inl RecursionError
   \<or> (\<exists>ms' r' e' b' pl'.
        finalize_input_editing n decimal_lib TotalInput TotalUnits ''Total Work Units'' True
          (zero_total_cycle ms r e b pl) = Inr (zero_total_cycle ms' r' e' b' pl'))"
proof -
  consider "n = 0" | "n = Suc 0" | "n = Suc (Suc 0)" | m where "n = Suc (Suc (Suc m))"
    by (metis not0_implies_Suc)
  then show ?thesis
  proof cases
    case 4
    have "finalize_input_editing (Suc (Suc (Suc m))) decimal_lib TotalInput TotalUnits ''Total Work Units'' True
      (zero_total_cycle ms r e b pl)
      = Inr (zero_total_cycle (ms @ [Warning ''Input Error'' ''Total Work Units must be a positive number.''])
              (Suc r) ''ETC: Total > 0 req.'' 0 ''0.0%'')"
      by (simp add: run_defs showing_def a_project_def zero_total_cycle_def)
    then show ?thesis using 4 by blast
  qed (simp_all add: run_defs showing_def a_project_def zero_total_cycle_def)
qed

text \<open>
  From a state of \<open>zero_total_cycle\<close> neither \<^verbatim>\<open>toggle_timer\<close> nor the finalization
  of the current field returns.
\<close>

lemma zero_total_cycle_never_returns:
  "toggle_timer n decimal_lib (Some ''a'') (zero_total_cycle ms r e b pl) = Inl RecursionError
   \<and> finalize_input_editing n decimal_lib CurrentInput CurrentUnits ''Current Work Units'' False
        (zero_total_cycle ms r e b pl) = Inl RecursionError"
proof (induction n arbitrary: ms r e b pl)
  case 0
  show ?case by simp
next
  case (Suc n)
  let ?Z = "zero_total_cycle ms r e b pl"
  have T: "toggle_timer (Suc n) decimal_lib (Some ''a'') ?Z = Inl RecursionError"
  proof -
    have "finalize_inputs (finalize_input_editing n decimal_lib) decimal_lib ''a'' ?Z = Inl RecursionError"
      using finalize_total_zero [of n ms r e b pl] Suc.IH
      by (auto simp: finalize_inputs_def and_then_def zero_total_cycle_def showing_def a_project_def)
    then show ?thesis
      by (simp add: toggle_timer_body_def and_then_def zero_total_cycle_def showing_def a_project_def)
  qed
  have F: "finalize_input_editing (Suc n) decimal_lib CurrentInput CurrentUnits ''Current Work Units'' False
      ?Z = Inl RecursionError"
  proof -
    have "store_input (toggle_timer n decimal_lib) (update_display_from_inputs n decimal_lib)
        decimal_lib CurrentInput CurrentUnits ''Current Work Units'' False ''a''
        (a_project 0 5 (Some 990) True 0) ?Z
      = and_then (and_then (toggle_timer n decimal_lib (Some ''a'')
           (zero_total_cycle (ms @ [Information ''Input Info''
              ''Current Work Units cannot exceed Total Work Units. Setting to Total Work Units.'']) r e b pl))
           (\<lambda>s2. Inr (0, s2)))
          (\<lambda>(value, s3). setText CurrentInput (decimal_1f value) (update_display_from_inputs n decimal_lib)
               (modify ''a'' (setattr CurrentUnits value) s3))"
      by (simp add: store_input_def validate_def zero_total_cycle_def showing_def a_project_def
          line_text_def show_message_def)
    then have "store_input (toggle_timer n decimal_lib) (update_display_from_inputs n decimal_lib)
        decimal_lib CurrentInput CurrentUnits ''Current Work Units'' False ''a''
        (a_project 0 5 (Some 990) True 0) ?Z = Inl RecursionError"
      using Suc.IH by (simp add: and_then_def)
    then show ?thesis
      by (simp add: finalize_input_editing_body_def selected_def falsy_def zero_total_cycle_def
          showing_def a_project_def and_then_def)
  qed
  from T F show ?case by simp
qed

text \<open>
  C4 (the code departs from it). A displayed project is running with total 100 and
  current 0. The total field is edited to 0.0 and finalized (the handler warns and keeps
  0.0, which the live edit has already stored), and the current field is edited to 5:
  these three handlers return, the timer still runs, the record holds total 0 and
  current 5. The current field is then finalized: 5 exceeds the total, so the handler
  calls \<^verbatim>\<open>toggle_timer\<close> to stop the timer before it stores the capped value. Whatever the
  recursion limit \<open>m\<close>, the handler ends in \<^verbatim>\<open>RecursionError\<close>: \<^verbatim>\<open>toggle_timer\<close> finalizes
  both fields of the displayed project before it stops the timer, and the finalization
  of the current field calls \<^verbatim>\<open>toggle_timer\<close> again. The timer is not stopped and the
  capped value is not stored.
\<close>

theorem finalize_current_over_total_recursion_error:
  "run_events (Suc (Suc (Suc n))) decimal_lib
     [TextEdited TotalInput ''0.0'', EditingFinished TotalInput, TextEdited CurrentInput ''5'']
     (showing (a_project 100 0 (Some 990) True 0) ''100.0'' ''0.0'')
   = Inr (zero_total_cycle [Warning ''Input Error'' ''Total Work Units must be a positive number.'']
            3 ''ETC: Total > 0 req.'' 0 ''0.0%'')
   \<and> handle m decimal_lib (EditingFinished CurrentInput)
       (zero_total_cycle [Warning ''Input Error'' ''Total Work Units must be a positive number.'']
            3 ''ETC: Total > 0 req.'' 0 ''0.0%'') = Inl RecursionError"
proof
  show "run_events (Suc (Suc (Suc n))) decimal_lib
     [TextEdited TotalInput ''0.0'', EditingFinished TotalInput, TextEdited CurrentInput ''5'']
     (showing (a_project 100 0 (Some 990) True 0) ''100.0'' ''0.0'')
   = Inr (zero_total_cycle [Warning ''Input Error'' ''Total Work Units must be a positive number.'']
            3 ''ETC: Total > 0 req.'' 0 ''0.0%'')"
    by (simp add: handle_def run_defs showing_def a_project_def zero_total_cycle_def
        eval_nat_numeral)
  show "handle m decimal_lib (EditingFinished CurrentInput)
       (zero_total_cycle [Warning ''Input Error'' ''Total Work Units must be a positive number.'']
            3 ''ETC: Total > 0 req.'' 0 ''0.0%'') = Inl RecursionError"
    using zero_total_cycle_never_returns by (simp add: handle_def)
qed

subsection \<open>The timer invariant\<close>

lemma keepsD: "keeps I f \<Longrightarrow> I s \<Longrightarrow> f s = Inr s' \<Longrightarrow> I s'"
  by (auto simp: keeps_def)

lemma and_then_Inr: "and_then m f = Inr y \<longleftrightarrow> (\<exists>x. m = Inr x \<and> f x = Inr y)"
  by (cases m) (auto simp: and_then_def)

lemma timer_inv_frame [simp]:
  "timer_inv (s\<lparr>messages := ms\<rparr>) = timer_inv s"
  "timer_inv (s\<lparr>etc_label := e\<rparr>) = timer_inv s"
  "timer_inv (s\<lparr>clock_reads := r\<rparr>) = timer_inv s"
  "timer_inv (s\<lparr>progress_bar := b\<rparr>) = timer_inv s"
  "timer_inv (s\<lparr>percentage_label := pl\<rparr>) = timer_inv s"
  "timer_inv (s\<lparr>total_value_input := t\<rparr>) = timer_inv s"
  "timer_inv (s\<lparr>current_value_input := t\<rparr>) = timer_inv s"
  "timer_inv (s\<lparr>start_timer_button := t\<rparr>) = timer_inv s"
  "timer_inv (s\<lparr>button_running := r'\<rparr>) = timer_inv s"
  "timer_inv (s\<lparr>project_name_input := t\<rparr>) = timer_inv s"
  "timer_inv (s\<lparr>project_description_input := t\<rparr>) = timer_inv s"
  "timer_inv (s\<lparr>project_list_widget := w\<rparr>) = timer_inv s"
  "timer_inv (s\<lparr>list_current_row := row\<rparr>) = timer_inv s"
  "timer_inv (s\<lparr>current_project_id := c\<rparr>) = timer_inv s"
  "timer_inv (s\<lparr>uuid_calls := u\<rparr>) = timer_inv s"
  by (simp_all add: timer_inv_def)

lemma timer_inv_small [simp]:
  "timer_inv (show_message m s) = timer_inv s"
  "timer_inv (set_etc p t s) = timer_inv s"
  "timer_inv (set_button k t r s) = timer_inv s"
  "timer_inv (put_text le t s) = timer_inv s"
  "timer_inv (snd (time_time s)) = timer_inv s"
  by (simp_all add: show_message_def set_etc_def set_button_def put_text_def time_time_def
      split: line_edit.splits)

lemma timer_inv_modify:
  "timer_inv s \<Longrightarrow> (\<And>p. (is_running p \<longleftrightarrow> start_time p \<noteq> None) \<Longrightarrow> (is_running (f p) \<longleftrightarrow> start_time (f p) \<noteq> None))
   \<Longrightarrow> timer_inv (modify k f s)"
  by (auto simp: timer_inv_def modify_def)

lemma timer_inv_modify_any:
  "timer_inv s \<Longrightarrow> (\<And>p. is_running (f p) \<longleftrightarrow> start_time (f p) \<noteq> None) \<Longrightarrow> timer_inv (modify k f s)"
  by (auto simp: timer_inv_def modify_def)

lemma timer_inv_setattr: "timer_inv s \<Longrightarrow> timer_inv (modify k (setattr a v) s)"
  by (rule timer_inv_modify) (auto simp: setattr_def split: attr.splits)

lemma timer_inv_refetch: "timer_inv s \<Longrightarrow> timer_inv (refetch L k s)"
  unfolding refetch_def by (intro timer_inv_modify) auto

lemma timer_inv_start: "timer_inv s \<Longrightarrow> timer_inv (start_timer k s)"
  unfolding start_timer_def by (auto simp: time_time_def intro!: timer_inv_modify_any)

lemma timer_inv_stop: "timer_inv s \<Longrightarrow> timer_inv (stop_timer k p s)"
  unfolding stop_timer_def by (auto simp: time_time_def split: option.splits intro!: timer_inv_modify_any)

lemma keeps_imp: "keeps I f \<Longrightarrow> f s = Inr s' \<Longrightarrow> (I s \<longrightarrow> I s')"
  by (auto simp: keeps_def)

lemma keepsI: "(\<And>s s'. I s \<Longrightarrow> f s = Inr s' \<Longrightarrow> I s') \<Longrightarrow> keeps I f"
  by (auto simp: keeps_def)

lemma keeps_setText:
  "keeps timer_inv slot \<Longrightarrow> keeps timer_inv (setText le t slot)"
  by (rule keepsI) (auto simp: setText_def split: if_splits dest: keeps_imp)

lemma keeps_update_etc_body:
  assumes "\<And>a. keeps timer_inv (toggle a)"
  shows "keeps timer_inv (update_etc_for_project_body toggle k)"
  by (rule keepsI)
     (auto simp: update_etc_for_project_body_def Let_def time_time_def
        split: option.splits if_splits prod.splits dest: keeps_imp [OF assms])

lemma keeps_update_display_body:
  assumes "\<And>k. keeps timer_inv (update_etc k)"
  shows "keeps timer_inv (update_display_from_inputs_body update_etc L)"
  by (rule keepsI)
     (auto simp: update_display_from_inputs_body_def Let_def
        split: option.splits dest!: keeps_imp [OF assms] intro!: timer_inv_modify)

lemma keeps_validate:
  assumes "\<And>a. keeps timer_inv (toggle a)"
  shows "timer_inv s \<Longrightarrow> validate toggle p a fn it v s = Inr (value, s') \<Longrightarrow> timer_inv s'"
  by (auto simp: validate_def Let_def and_then_Inr split: if_splits dest!: keeps_imp [OF assms])

lemma keeps_store_input:
  assumes t: "\<And>a. keeps timer_inv (toggle a)" and u: "keeps timer_inv update_display"
  shows "keeps timer_inv (store_input toggle update_display L le a fn it k p)"
proof (rule keepsI)
  fix s s'
  assume I: "timer_inv s" and r: "store_input toggle update_display L le a fn it k p s = Inr s'"
  note st = keepsD [OF keeps_setText [OF u]]
  show "timer_inv s'"
  proof (cases "float_of L (line_text le s)")
    case None
    with r have "setText le (format_1f L (getattr p a)) update_display
            (if \<not> is_blank L (line_text le s)
             then show_message (Warning ''Input Error''
                    (''Please enter a valid number for '' @ fn @ ''.'')) s
             else s) = Inr s'"
      by (simp add: store_input_def)
    moreover have "timer_inv (if \<not> is_blank L (line_text le s)
             then show_message (Warning ''Input Error''
                    (''Please enter a valid number for '' @ fn @ ''.'')) s
             else s)"
      using I by simp
    ultimately show ?thesis using st by blast
  next
    case (Some v)
    with r obtain val s3 where v: "validate toggle p a fn it v s = Inr (val, s3)"
      and s: "setText le (format_1f L val) update_display (modify k (setattr a val) s3) = Inr s'"
      by (auto simp: store_input_def and_then_Inr)
    have "timer_inv s3" using keeps_validate [OF t I v] .
    then have "timer_inv (modify k (setattr a val) s3)" by (rule timer_inv_setattr)
    then show ?thesis using st [OF _ s] by blast
  qed
qed

lemma keeps_finalize_body:
  assumes t: "\<And>a. keeps timer_inv (toggle a)" and u: "keeps timer_inv update_display"
  shows "keeps timer_inv (finalize_input_editing_body toggle update_display L le a fn it)"
  by (rule keepsI)
     (auto simp: finalize_input_editing_body_def and_then_Inr split: option.splits
        dest!: keeps_imp [OF keeps_store_input [OF t u]] keeps_imp [OF u])

lemma keeps_finalize_inputs:
  assumes f: "\<And>le a fn it. keeps timer_inv (finalize le a fn it)"
  shows "keeps timer_inv (finalize_inputs finalize L k)"
  by (rule keepsI)
     (auto simp: finalize_inputs_def and_then_Inr split: if_splits
        dest!: keeps_imp [OF f] intro: timer_inv_refetch)

lemma keeps_start_or_stop:
  assumes e: "\<And>k. keeps timer_inv (update_etc k)"
  shows "keeps timer_inv (start_or_stop update_etc k)"
proof (rule keepsI)
  fix s s'
  assume I: "timer_inv s" and r: "start_or_stop update_etc k s = Inr s'"
  note ue = keepsD [OF e]
  from r obtain p where p: "dict_get k (projects s) = Some p"
    by (cases "dict_get k (projects s)") (auto simp: start_or_stop_def)
  have 1: "timer_inv (start_timer k s)" using I by (rule timer_inv_start)
  have 2: "timer_inv (stop_timer k p s)" using I by (rule timer_inv_stop)
  consider (msg) m where "s' = show_message m s"
    | (etc) s1 where "update_etc k s1 = Inr s'" "timer_inv s1"
    | (direct) "s' = start_timer k s \<or> s' = stop_timer k p s"
    using r p I 1 2
    by (simp add: start_or_stop_def Let_def split: if_splits) fastforce+
  then show "timer_inv s'"
  proof cases
    case msg
    then show ?thesis using I by simp
  next
    case etc
    then show ?thesis using ue by blast
  next
    case direct
    then show ?thesis using 1 2 by auto
  qed
qed

lemma keeps_toggle_body:
  assumes f: "\<And>le a fn it. keeps timer_inv (finalize le a fn it)"
    and e: "\<And>k. keeps timer_inv (update_etc k)"
  shows "keeps timer_inv (toggle_timer_body finalize update_etc L arg)"
  by (rule keepsI)
     (auto simp: toggle_timer_body_def and_then_Inr split: option.splits if_splits
        dest!: keeps_imp [OF keeps_finalize_inputs [OF f]] keeps_imp [OF keeps_start_or_stop [OF e]])

lemma keeps_Inl [simp]: "keeps I (\<lambda>s. Inl e)"
  by (simp add: keeps_def)

lemma methods_Suc:
  "toggle_timer (Suc n) L arg =
     toggle_timer_body (finalize_input_editing n L) (update_etc_for_project n L) L arg"
  "finalize_input_editing (Suc n) L le a fn it =
     finalize_input_editing_body (toggle_timer n L) (update_display_from_inputs n L) L le a fn it"
  "update_display_from_inputs (Suc n) L =
     update_display_from_inputs_body (update_etc_for_project n L) L"
  "update_etc_for_project (Suc n) L k = update_etc_for_project_body (toggle_timer n L) k"
  by (rule ext, simp)+

lemma methods_0:
  "toggle_timer 0 L arg = (\<lambda>s. Inl RecursionError)"
  "finalize_input_editing 0 L le a fn it = (\<lambda>s. Inl RecursionError)"
  "update_display_from_inputs 0 L = (\<lambda>s. Inl RecursionError)"
  "update_etc_for_project 0 L k = (\<lambda>s. Inl RecursionError)"
  by (rule ext, simp)+

lemma methods_keep_timer_inv:
  "keeps timer_inv (toggle_timer n L arg)
   \<and> keeps timer_inv (finalize_input_editing n L le a fn it)
   \<and> keeps timer_inv (update_display_from_inputs n L)
   \<and> keeps timer_inv (update_etc_for_project n L k)"
proof (induction n arbitrary: arg le a fn it k)
  case 0
  show ?case unfolding methods_0 by simp
next
  case (Suc n)
  have T: "keeps timer_inv (toggle_timer n L arg)" for arg using Suc.IH by blast
  have F: "keeps timer_inv (finalize_input_editing n L le a fn it)" for le a fn it using Suc.IH by blast
  have U: "keeps timer_inv (update_display_from_inputs n L)" using Suc.IH by blast
  have E: "keeps timer_inv (update_etc_for_project n L k)" for k using Suc.IH by blast
  show ?case
    unfolding methods_Suc
    by (intro conjI keeps_toggle_body keeps_finalize_body keeps_update_display_body
        keeps_update_etc_body T F U E)
qed

lemma keeps_and_then:
  assumes "keeps I f" and "keeps I g"
  shows "keeps I (\<lambda>s. and_then (f s) g)"
proof (rule keepsI)
  fix s s'
  assume I: "I s" and "and_then (f s) g = Inr s'"
  then obtain x where "f s = Inr x" and "g x = Inr s'"
    unfolding and_then_Inr by blast
  then show "I s'"
    using assms I keepsD by metis
qed

lemma keeps_with_project: "(\<And>p. keeps I (f p)) \<Longrightarrow> keeps I (with_project k f)"
  by (auto simp: keeps_def with_project_def split: option.splits)

lemma keeps_update_each:
  "(\<And>k. keeps I (update_etc k)) \<Longrightarrow> keeps I (update_each update_etc ks)"
proof (induction ks)
  case Nil
  show ?case by (simp add: keeps_def)
next
  case (Cons k ks)
  have "update_each update_etc (k # ks) = (\<lambda>s. and_then (update_etc k s) (update_each update_etc ks))"
    by (rule ext) simp
  then show ?case using Cons by (simp add: keeps_and_then)
qed

lemma keeps_update_all_etcs: "keeps timer_inv (update_all_etcs n L)"
proof (rule keepsI)
  fix s s'
  assume I: "timer_inv s" and r: "update_all_etcs n L s = Inr s'"
  from r obtain m where n: "n = Suc m"
    by (cases n) (auto simp: update_all_etcs_def)
  have "keeps timer_inv (update_etc_for_project m L k)" for k
    using methods_keep_timer_inv by blast
  then have "keeps timer_inv (update_each (update_etc_for_project m L) (map id_of (projects s)))"
    by (rule keeps_update_each)
  moreover have "update_each (update_etc_for_project m L) (map id_of (projects s)) s = Inr s'"
    using r unfolding update_all_etcs_def n by simp
  ultimately show "timer_inv s'"
    using I keepsD by blast
qed

lemma keeps_name_changed: "keeps timer_inv (on_project_name_changed L)"
  by (rule keepsI)
     (auto simp: on_project_name_changed_def Let_def split: option.splits if_splits
        intro!: timer_inv_modify)

lemma keeps_set_name_text: "keeps timer_inv (set_name_text L t)"
  by (rule keepsI) (auto simp: set_name_text_def split: if_splits dest!: keeps_imp [OF keeps_name_changed])

lemma keeps_set_description_text: "keeps timer_inv (set_description_text t)"
  by (rule keepsI)
     (auto simp: set_description_text_def on_project_description_changed_def
        split: option.splits intro!: timer_inv_modify)

lemma keeps_show_button: "keeps timer_inv (show_button p)"
  by (rule keepsI) (auto simp: show_button_def)

lemmas keeps_U = methods_keep_timer_inv [THEN conjunct2, THEN conjunct2, THEN conjunct1]

lemma keeps_select: "keeps timer_inv (select_project_from_list n L item)"
proof (rule keepsI)
  fix s s'
  assume I: "timer_inv s" and r: "select_project_from_list n L item s = Inr s'"
  from r obtain m where n: "n = Suc m"
    by (cases n) (auto simp: select_project_from_list_def)
  note st = keepsD [OF keeps_setText [OF keeps_U]]
  note wp = keepsD [OF keeps_with_project]
  show "timer_inv s'"
  proof (cases item)
    case None
    from r obtain s1 s2 s3 s4 where
      1: "set_name_text L [] (s\<lparr>current_project_id := None\<rparr>) = Inr s1" and
      2: "set_description_text [] s1 = Inr s2" and
      3: "setText TotalInput ''0.0'' (update_display_from_inputs m L) s2 = Inr s3" and
      4: "setText CurrentInput ''0.0'' (update_display_from_inputs m L) s3 = Inr s4" and
      5: "s' = s4\<lparr>etc_label := ''ETC: --:--:--'', percentage_label := ''0.0%'',
                              progress_bar := 0, start_timer_button := ''Start Timer'',
                              button_running := False\<rparr>"
      unfolding select_project_from_list_def n None by (auto simp: and_then_Inr)
    have "timer_inv (s\<lparr>current_project_id := None\<rparr>)" using I by simp
    then have "timer_inv s1" using keepsD [OF keeps_set_name_text _ 1] by blast
    then have "timer_inv s2" using keepsD [OF keeps_set_description_text _ 2] by blast
    then have "timer_inv s3" using st [OF _ 3] by blast
    then have "timer_inv s4" using st [OF _ 4] by blast
    then show ?thesis using 5 by simp
  next
    case (Some i)
    show ?thesis
    proof (cases "Some i = current_project_id s")
      case True
      have "s' = s"
        using r True [symmetric] unfolding select_project_from_list_def n Some by simp
      then show ?thesis using I by simp
    next
      case False
      from r False obtain s1 s2 s3 s4 s5 where
        1: "with_project i (\<lambda>p. set_name_text L (name p)) (s\<lparr>current_project_id := Some i\<rparr>) = Inr s1" and
        2: "with_project i (\<lambda>p. set_description_text (description p)) s1 = Inr s2" and
        3: "with_project i (\<lambda>p. setText TotalInput (format_1f L (total_units p))
              (update_display_from_inputs m L)) s2 = Inr s3" and
        4: "with_project i (\<lambda>p. setText CurrentInput (format_1f L (current_units p))
              (update_display_from_inputs m L)) s3 = Inr s4" and
        5: "with_project i show_button s4 = Inr s5" and
        6: "update_display_from_inputs m L s5 = Inr s'"
        unfolding select_project_from_list_def n Some by (auto simp: and_then_Inr Let_def)
      have "timer_inv (s\<lparr>current_project_id := Some i\<rparr>)" using I by simp
      then have "timer_inv s1" using wp [OF keeps_set_name_text _ 1] by blast
      then have "timer_inv s2" using wp [OF keeps_set_description_text _ 2] by blast
      then have "timer_inv s3" using wp [OF keeps_setText [OF keeps_U] _ 3] by blast
      then have "timer_inv s4" using wp [OF keeps_setText [OF keeps_U] _ 4] by blast
      then have "timer_inv s5" using wp [OF keeps_show_button _ 5] by blast
      then show ?thesis using keepsD [OF keeps_U _ 6] by blast
    qed
  qed
qed

lemma in_dict_set: "p \<in> set (dict_set q ps) \<Longrightarrow> p = q \<or> p \<in> set ps"
  by (induction ps) (auto split: if_splits)

lemma timer_inv_dict_set:
  "timer_inv s \<Longrightarrow> (is_running q \<longleftrightarrow> start_time q \<noteq> None) \<Longrightarrow>
   timer_inv (s\<lparr>projects := dict_set q (projects s)\<rparr>)"
  by (auto simp: timer_inv_def dest!: in_dict_set)

lemma keeps_add: "keeps timer_inv (add_new_project n L)"
proof (rule keepsI)
  fix s s'
  assume I: "timer_inv s" and r: "add_new_project n L s = Inr s'"
  from r obtain m where n: "n = Suc m"
    by (cases n) (auto simp: add_new_project_def)
  let ?q = "Project (uuids s (uuid_calls s)) (''New Project '' @ digits (length (projects s) + 1))"
  let ?s4 = "s\<lparr>uuid_calls := Suc (uuid_calls s), projects := dict_set ?q (projects s),
      project_list_widget := project_list_widget s @ [(name ?q, id_of ?q)],
      list_current_row := Some (length (project_list_widget s @ [(name ?q, id_of ?q)]) - 1)\<rparr>"
  have "select_project_from_list m L (Some (id_of ?q)) ?s4 = Inr s'"
    using r unfolding add_new_project_def n by (simp add: uuid4_def Let_def)
  moreover have "timer_inv ?s4"
    using timer_inv_dict_set [OF I, of ?q] by (simp add: Project_def timer_inv_def)
  ultimately show "timer_inv s'" using keepsD [OF keeps_select] by blast
qed

lemma keeps_reset: "keeps timer_inv (reset_selected_project n L)"
proof (rule keepsI)
  fix s s'
  assume I: "timer_inv s" and r: "reset_selected_project n L s = Inr s'"
  from r obtain m where n: "n = Suc m"
    by (cases n) (auto simp: reset_selected_project_def)
  note wp = keepsD [OF keeps_with_project]
  show "timer_inv s'"
  proof (cases "selected s")
    case None
    then show ?thesis using r I unfolding reset_selected_project_def n by auto
  next
    case (Some k)
    from r obtain s1 s2 s3 s4 where
      1: "with_project k (\<lambda>p s. Inr (modify k reset_fields s)) s = Inr s1" and
      2: "with_project k (\<lambda>p. setText CurrentInput (format_1f L (current_units p))
              (update_display_from_inputs m L)) s1 = Inr s2" and
      3: "with_project k (\<lambda>p. setText TotalInput (format_1f L (total_units p))
              (update_display_from_inputs m L)) s2 = Inr s3" and
      4: "with_project k (\<lambda>p. set_description_text (description p)) s3 = Inr s4" and
      5: "update_display_from_inputs m L
            (s4\<lparr>start_timer_button := ''Start Timer'', button_running := False\<rparr>) = Inr s'"
      unfolding reset_selected_project_def n by (auto simp: Some and_then_Inr)
    have "s1 = modify k reset_fields s"
      using 1 by (auto simp: with_project_def split: option.splits)
    then have "timer_inv s1"
      using I by (auto simp: reset_fields_def intro!: timer_inv_modify_any)
    then have "timer_inv s2" using wp [OF keeps_setText [OF keeps_U] _ 2] by blast
    then have "timer_inv s3" using wp [OF keeps_setText [OF keeps_U] _ 3] by blast
    then have "timer_inv s4" using wp [OF keeps_set_description_text _ 4] by blast
    then have "timer_inv (s4\<lparr>start_timer_button := ''Start Timer'', button_running := False\<rparr>)"
      by simp
    then show ?thesis using keepsD [OF keeps_U _ 5] by blast
  qed
qed

lemma handle_keeps_timer_inv: "timer_inv s \<Longrightarrow> handle n L ev s = Inr s' \<Longrightarrow> timer_inv s'"
proof -
  assume I: "timer_inv s" and r: "handle n L ev s = Inr s'"
  have m: "keeps timer_inv (toggle_timer n L arg)"
    "keeps timer_inv (finalize_input_editing n L le a fn it)"
    "keeps timer_inv (update_display_from_inputs n L)" for arg le a fn it
    using methods_keep_timer_inv by blast+
  show ?thesis
  proof (cases ev)
    case (ToggleTimer arg)
    then show ?thesis using keepsD [OF m(1) I] r by (simp add: handle_def)
  next
    case (EditingFinished le)
    then show ?thesis using keepsD [OF m(2) I] r by (cases le) (simp_all add: handle_def)
  next
    case (TextEdited le t)
    then show ?thesis using keepsD [OF keeps_setText [OF m(3)] I] r by (simp add: handle_def)
  next
    case (NameEdited t)
    then show ?thesis using keepsD [OF keeps_set_name_text I] r by (simp add: handle_def)
  next
    case (DescriptionEdited t)
    then show ?thesis using keepsD [OF keeps_set_description_text I] r by (simp add: handle_def)
  next
    case AddProject
    then show ?thesis using keepsD [OF keeps_add I] r by (simp add: handle_def)
  next
    case ResetProject
    then show ?thesis using keepsD [OF keeps_reset I] r by (simp add: handle_def)
  next
    case PollTick
    then show ?thesis using keepsD [OF keeps_update_all_etcs I] r by (simp add: handle_def)
  qed
qed

lemma project_of_json_timer:
  assumes "project_of_json fresh kvs = Some p"
  shows "(is_running p \<longleftrightarrow> start_time p \<noteq> None) \<longleftrightarrow> timer_fields_agree kvs"
proof -
  from assms obtain run st where
    r: "get_field kvs ''is_running'' False as_bool = Some run" and
    s: "get_field kvs ''start_time'' None as_opt_num = Some st" and
    p: "is_running p = run" "start_time p = st"
    unfolding project_of_json_def by (auto simp: bind_eq_Some_conv)
  have "run \<longleftrightarrow> (case py_get kvs ''is_running'' of Some (JBool True) \<Rightarrow> True | _ \<Rightarrow> False)"
    using r by (auto simp: get_field_def as_bool_def split: option.splits json.splits bool.splits)
  moreover have "st \<noteq> None \<longleftrightarrow> (case py_get kvs ''start_time'' of Some (JNum t) \<Rightarrow> True | _ \<Rightarrow> False)"
    using s by (auto simp: get_field_def as_opt_num_def split: option.splits json.splits)
  ultimately show ?thesis using p by (simp add: timer_fields_agree_def)
qed

lemma load_loop_timer_inv:
  "timer_inv s \<Longrightarrow> list_all (\<lambda>x. case x of JObj kvs \<Rightarrow> timer_fields_agree kvs | _ \<Rightarrow> True) xs \<Longrightarrow>
   load_loop xs s = Some (ok, s') \<Longrightarrow> timer_inv s'"
proof (induction xs s rule: load_loop.induct)
  case (1 s)
  then show ?case by simp
next
  case (2 project_data rest s)
  from "2.prems"(3) obtain p where p: "project_of_json (uuids s (uuid_calls s)) project_data = Some p"
    by (auto simp: uuid4_def split: option.splits)
  let ?s1 = "s\<lparr>uuid_calls := Suc (uuid_calls s)\<rparr>"
  let ?s2 = "?s1\<lparr>projects := dict_set p (projects ?s1),
      project_list_widget := project_list_widget ?s1 @ [(name p, id_of p)]\<rparr>"
  have ok: "is_running p \<longleftrightarrow> start_time p \<noteq> None"
    using project_of_json_timer [OF p] "2.prems"(2) by simp
  have "timer_inv ?s2"
    using timer_inv_dict_set [of ?s1 p] "2.prems"(1) ok by simp
  moreover have "load_loop rest ?s2 = Some (ok, s')"
    using "2.prems"(3) p by (simp add: uuid4_def)
  moreover have "list_all (\<lambda>x. case x of JObj kvs \<Rightarrow> timer_fields_agree kvs | _ \<Rightarrow> True) rest"
    using "2.prems"(2) by simp
  ultimately show ?case
    using "2.IH" [of "(uuids s (uuid_calls s), ?s1)" "uuids s (uuid_calls s)" ?s1 p] p
    by (simp add: uuid4_def)
qed (use timer_inv_def in auto)

lemma load_projects_timer_inv:
  assumes "timer_inv s" and "file_agrees fl" and "load_projects fl s = Some s'"
  shows "timer_inv s'"
proof (cases fl)
  case (Content raw_data)
  show ?thesis
  proof (cases "iterate raw_data")
    case None
    then show ?thesis using assms Content by (auto simp: load_projects_def load_failed_def timer_inv_def)
  next
    case (Some xs)
    then obtain ok s1 where l: "load_loop xs s = Some (ok, s1)" and s': "s' = (if ok then s1 else load_failed s1)"
      using assms(3) Content by (auto simp: load_projects_def split: option.splits)
    have "timer_inv s1"
      using load_loop_timer_inv [OF assms(1) _ l] assms(2) Content Some by (simp add: file_agrees_def)
    then show ?thesis using s' by (auto simp: load_failed_def timer_inv_def)
  qed
qed (use assms in \<open>auto simp: load_projects_def load_failed_def timer_inv_def show_message_def\<close>)

lemma saved_file_agrees:
  assumes "timer_inv s"
  shows "file_agrees (Content (JArr (map asdict (projects s))))"
proof -
  have "timer_fields_agree kvs" if "p \<in> set (projects s)" and "asdict p = JObj kvs" for p kvs
    using that assms
    by (cases "start_time p"; cases "is_running p")
       (auto simp: timer_inv_def asdict_def timer_fields_agree_def py_get_def)
  then show ?thesis
    by (auto simp: file_agrees_def iterate_def list_all_iff asdict_def split: json.splits)
qed

lemma map_sum_InrD: "map_sum id f x = Inr y \<Longrightarrow> \<exists>s'. x = Inr s' \<and> f s' = y"
  by (cases x) auto

text \<open>
  C6 (amended). Every handler of the window (timer toggle, finalized and live edits,
  edits of name and description, creating a project, reset, poll tick) keeps the timer
  invariant whenever it returns, and the state at startup has it. Loading copies
  \<^verbatim>\<open>is_running\<close> and \<^verbatim>\<open>start_time\<close> from the file as they are: it keeps the
  invariant when the objects of the file satisfy it, which holds for every file that
  \<^verbatim>\<open>save_projects\<close> writes from a store with the invariant.
\<close>

theorem operations_keep_timer_invariant:
  "(timer_inv s \<and> handle n L ev s = Inr s' \<longrightarrow> timer_inv s')
   \<and> (timer_inv s \<and> file_agrees fl \<and> load_projects fl s = Some s'' \<longrightarrow> timer_inv s'')
   \<and> (timer_inv s \<longrightarrow>
        fst (save_projects True s) = Some (JArr (map asdict (projects s)))
        \<and> file_agrees (Content (JArr (map asdict (projects s)))))
   \<and> timer_inv (initial_app clk ids)"
proof (intro conjI impI)
  show "timer_inv s'" if "timer_inv s \<and> handle n L ev s = Inr s'"
    using that handle_keeps_timer_inv by blast
  show "timer_inv s''" if "timer_inv s \<and> file_agrees fl \<and> load_projects fl s = Some s''"
    using that load_projects_timer_inv by blast
  show "fst (save_projects True s) = Some (JArr (map asdict (projects s)))"
    by (simp add: save_projects_def)
  show "file_agrees (Content (JArr (map asdict (projects s))))" if "timer_inv s"
    using that by (rule saved_file_agrees)
  show "timer_inv (initial_app clk ids)"
    by (simp add: timer_inv_def initial_app_def)
qed

theorem operations_keep_timer_invariant_witness:
  "timer_inv (showing (a_project 100 50 None False 0) ''100.0'' ''50.0'')
   \<and> (\<exists>s'. handle (Suc (Suc (Suc (Suc 0)))) decimal_lib (ToggleTimer None)
              (showing (a_project 100 50 None False 0) ''100.0'' ''50.0'') = Inr s'
          \<and> map (\<lambda>p. (is_running p, start_time p)) (projects s') = [(True, Some 1000)]
          \<and> timer_inv s')
   \<and> (\<exists>s''. load_projects (Content (JArr [JObj [(''name'', JStr ''X'')]]))
               (showing (a_project 100 50 None False 0) ''100.0'' ''50.0'') = Some s''
          \<and> timer_inv s'')"
proof -
  let ?s = "showing (a_project 100 50 None False 0) ''100.0'' ''50.0''"
  let ?fl = "Content (JArr [JObj [(''name'', JStr ''X'')]])"
  let ?h = "handle (Suc (Suc (Suc (Suc 0)))) decimal_lib (ToggleTimer None) ?s"
  have I: "timer_inv ?s"
    by (simp add: timer_inv_def showing_def a_project_def)
  have "map_sum id (\<lambda>s. map (\<lambda>p. (is_running p, start_time p)) (projects s)) ?h
      = Inr [(True, Some 1000)]"
    by (simp add: handle_def run_defs showing_def a_project_def)
  from map_sum_InrD [OF this] obtain s' where h: "?h = Inr s'" and
    r: "map (\<lambda>p. (is_running p, start_time p)) (projects s') = [(True, Some 1000)]"
    by (elim exE conjE)
  have a: "file_agrees ?fl"
    by (simp add: file_agrees_def iterate_def timer_fields_agree_def py_get_def)
  have "load_projects ?fl ?s \<noteq> None"
    by (simp add: load_projects_def iterate_def uuid4_def project_of_json_def get_field_def
        py_get_def as_str_def)
  then obtain s'' where l: "load_projects ?fl ?s = Some s''"
    by (cases "load_projects ?fl ?s") simp_all
  note T = operations_keep_timer_invariant [of ?s "Suc (Suc (Suc (Suc 0)))" decimal_lib
      "ToggleTimer None" s' ?fl s'']
  have 1: "timer_inv s'"
    using T [THEN conjunct1] I h by (simp only: simp_thms)
  have 2: "timer_inv s''"
    using T [THEN conjunct2, THEN conjunct1] I a l by (simp only: simp_thms)
  show ?thesis
    by (intro conjI exI [of _ s'] exI [of _ s'']) (rule I h r 1 l 2)+
qed

text \<open>
  C6 as stated fails for loading: the file \<^verbatim>\<open>[{"is_running": true}]\<close> gives a project
  that is running and has no start time.
\<close>

theorem load_breaks_timer_invariant_counterexample:
  "timer_inv (initial_app (\<lambda>k. 0) (\<lambda>k. ''u0''))
   \<and> map_option (\<lambda>s. map (\<lambda>p. (is_running p, start_time p)) (projects s))
        (load_projects (Content (JArr [JObj [(''is_running'', JBool True)]]))
           (initial_app (\<lambda>k. 0) (\<lambda>k. ''u0''))) = Some [(True, None)]
   \<and> \<not> (\<forall>s'. load_projects (Content (JArr [JObj [(''is_running'', JBool True)]]))
                 (initial_app (\<lambda>k. 0) (\<lambda>k. ''u0'')) = Some s' \<longrightarrow> timer_inv s')"
  by (simp add: load_projects_def iterate_def uuid4_def project_of_json_def get_field_def
      py_get_def as_bool_def initial_app_def timer_inv_def)

subsection \<open>Live edits\<close>

lemma dict_get_modify:
  assumes "dict_get k ps = Some p" and "\<And>q. id_of (f q) = id_of q"
  shows "dict_get k (map (\<lambda>q. if id_of q = k then f q else q) ps) = Some (f p)"
  using assms(1) by (induction ps) (auto simp: assms(2) split: if_splits)

lemma dict_get_modify_app:
  assumes "dict_get k (projects s) = Some p" and "\<And>q. id_of (f q) = id_of q"
  shows "dict_get k (projects (modify k f s)) = Some (f p)"
  using dict_get_modify [OF assms] by (simp add: modify_def)

lemma update_etc_stopped:
  assumes "dict_get k (projects s) = Some p" and "\<not> is_running p"
  shows "update_etc_for_project (Suc n) L k s =
     Inr (set_etc p (if start_time p \<noteq> None
                     then ''ETC: Paused ('' @ format_time (Some (elapsed_at_pause p)) @ '' elapsed)''
                     else ''ETC: --:--:--'') s)"
  using assms by (simp add: update_etc_for_project_body_def)

lemma update_etc_running_incomplete:
  assumes "dict_get k (projects s) = Some p" and "is_running p" and "start_time p = Some st"
    and "total_units p \<le> 0 \<or> current_units p = 0
         \<or> elapsed_at_pause p + (clock s (clock_reads s) - st) = 0
         \<or> current_units p < total_units p"
  shows "\<exists>lbl. update_etc_for_project (Suc n) L k s =
     Inr (set_etc p lbl (s\<lparr>clock_reads := Suc (clock_reads s)\<rparr>))"
proof -
  have "\<not> 1 \<le> current_units p / total_units p" if "0 < total_units p" "current_units p < total_units p"
    using that by (simp add: field_simps)
  then show ?thesis
    using assms
    by (auto simp: update_etc_for_project_body_def time_time_def py_div_def Let_def)
qed

lemma update_display_stopped:
  assumes sel: "selected s = Some k" and p: "dict_get k (projects s) = Some p"
    and c: "c = get_safe_value L (current_value_input s) (current_units p)"
    and t: "t = get_safe_value L (total_value_input s) (total_units p)"
    and stopped: "\<not> is_running p"
  shows "update_display_from_inputs (Suc (Suc n)) L s =
      Inr ((modify k (\<lambda>q. q\<lparr>current_units := c, total_units := t\<rparr>) s)
            \<lparr>progress_bar := py_int (displayed_percentage c t),
             percentage_label := format_1f L (displayed_percentage c t) @ ''%'',
             etc_label := (if start_time p \<noteq> None
                     then ''ETC: Paused ('' @ format_time (Some (elapsed_at_pause p)) @ '' elapsed)''
                     else ''ETC: --:--:--'')\<rparr>)"
proof -
  let ?p' = "p\<lparr>current_units := c, total_units := t\<rparr>"
  let ?s2 = "(modify k (\<lambda>q. q\<lparr>current_units := c, total_units := t\<rparr>) s)
      \<lparr>progress_bar := py_int (displayed_percentage c t),
       percentage_label := format_1f L (displayed_percentage c t) @ ''%''\<rparr>"
  have U: "update_display_from_inputs (Suc (Suc n)) L s = update_etc_for_project (Suc n) L k ?s2"
    using sel p c t by (simp add: update_display_from_inputs_body_def Let_def)
  have p': "dict_get k (projects ?s2) = Some ?p'"
    using dict_get_modify_app [OF p, of "\<lambda>q. q\<lparr>current_units := c, total_units := t\<rparr>"] by simp
  have cur: "current_project_id ?s2 = Some k"
    using sel by (auto simp: selected_def modify_def split: if_splits)
  have idp: "id_of p = k" using p by (rule dict_get_id)
  have "\<not> is_running ?p'" using stopped by simp
  from update_etc_stopped [OF p' this, of n L] show ?thesis
    unfolding U using cur idp by (simp add: set_etc_def)
qed

lemma update_display_incomplete:
  assumes sel: "selected s = Some k" and p: "dict_get k (projects s) = Some p"
    and c: "c = get_safe_value L (current_value_input s) (current_units p)"
    and t: "t = get_safe_value L (total_value_input s) (total_units p)"
    and inc: "is_running p \<longrightarrow> (\<exists>st. start_time p = Some st \<and>
         (t \<le> 0 \<or> c = 0 \<or> elapsed_at_pause p + (clock s (clock_reads s) - st) = 0 \<or> c < t))"
  shows "\<exists>s'. update_display_from_inputs (Suc (Suc n)) L s = Inr s'
      \<and> projects s' = map (\<lambda>q. if id_of q = k then q\<lparr>current_units := c, total_units := t\<rparr> else q) (projects s)
      \<and> dict_get k (projects s') = Some (p\<lparr>current_units := c, total_units := t\<rparr>)"
proof -
  let ?p' = "p\<lparr>current_units := c, total_units := t\<rparr>"
  let ?s2 = "(modify k (\<lambda>q. q\<lparr>current_units := c, total_units := t\<rparr>) s)
      \<lparr>progress_bar := py_int (displayed_percentage c t),
       percentage_label := format_1f L (displayed_percentage c t) @ ''%''\<rparr>"
  have U: "update_display_from_inputs (Suc (Suc n)) L s = update_etc_for_project (Suc n) L k ?s2"
    using sel p c t by (simp add: update_display_from_inputs_body_def Let_def)
  have p': "dict_get k (projects ?s2) = Some ?p'"
    using dict_get_modify_app [OF p, of "\<lambda>q. q\<lparr>current_units := c, total_units := t\<rparr>"] by simp
  have ps: "projects ?s2 = map (\<lambda>q. if id_of q = k then q\<lparr>current_units := c, total_units := t\<rparr> else q) (projects s)"
    by (simp add: modify_def)
  show ?thesis
  proof (cases "is_running p")
    case False
    then have "\<not> is_running ?p'" by simp
    from update_etc_stopped [OF p' this, of n L] show ?thesis
      unfolding U using p' ps by (simp add: set_etc_def)
  next
    case True
    with inc obtain st where st: "start_time ?p' = Some st" and
      i: "total_units ?p' \<le> 0 \<or> current_units ?p' = 0
         \<or> elapsed_at_pause ?p' + (clock ?s2 (clock_reads ?s2) - st) = 0
         \<or> current_units ?p' < total_units ?p'"
      by (auto simp: modify_def)
    have "is_running ?p'" using True by simp
    from update_etc_running_incomplete [OF p' this st i, of n L] obtain lbl where
      "update_etc_for_project (Suc n) L k ?s2 = Inr (set_etc ?p' lbl (?s2\<lparr>clock_reads := Suc (clock_reads ?s2)\<rparr>))"
      by blast
    then show ?thesis
      unfolding U using p' ps by (simp add: set_etc_def)
  qed
qed

lemma update_etc_running_no_start:
  assumes "dict_get k (projects s) = Some p" and "is_running p" and "start_time p = None"
  shows "update_etc_for_project (Suc n) L k s = Inl TypeError"
  using assms by (simp add: update_etc_for_project_body_def time_time_def)

text \<open>
  C10 (amended). A live change of the text of the current or of the total field writes
  the parsed values of both fields (the previous value of the record for a text that is
  blank or not a number) into \<open>current_units\<close> and \<open>total_units\<close> of the selected
  project and leaves every other field of every record as it is; the handler then sets
  the percentage and computes the ETC on the store so written. When the project is not
  running, or is running with a start time and the written values do not complete it
  (total \<le> 0, or current = 0, or no time has elapsed, or current < total), the handler
  returns with exactly these writes; the values are not clamped, so current may exceed
  total. When the project is running without a start time, the ETC computation raises
  \<^verbatim>\<open>TypeError\<close>.
\<close>

theorem live_edit_writes_parsed_values:
  assumes "txt \<noteq> line_text le s" and "selected s = Some k" and "dict_get k (projects s) = Some p"
    and "c = get_safe_value L (current_value_input (put_text le txt s)) (current_units p)"
    and "t = get_safe_value L (total_value_input (put_text le txt s)) (total_units p)"
    and "written = modify k (\<lambda>q. q\<lparr>current_units := c, total_units := t\<rparr>) (put_text le txt s)"
  shows "handle (Suc n) L (TextEdited le txt) s =
           update_etc_for_project n L k
             (written\<lparr>progress_bar := py_int (displayed_percentage c t),
                      percentage_label := format_1f L (displayed_percentage c t) @ ''%''\<rparr>)
      \<and> projects written =
           map (\<lambda>q. if id_of q = k then q\<lparr>current_units := c, total_units := t\<rparr> else q) (projects s)
      \<and> (\<not> is_running p \<or> (\<exists>st. start_time p = Some st \<and>
             (t \<le> 0 \<or> c = 0 \<or> elapsed_at_pause p + (clock s (clock_reads s) - st) = 0 \<or> c < t))
           \<longrightarrow> (\<exists>s'. handle (Suc (Suc n)) L (TextEdited le txt) s = Inr s'
                 \<and> projects s' = projects written
                 \<and> dict_get k (projects s') = Some (p\<lparr>current_units := c, total_units := t\<rparr>)))
      \<and> (is_running p \<and> start_time p = None
           \<longrightarrow> handle (Suc (Suc n)) L (TextEdited le txt) s = Inl TypeError)"
proof (intro conjI impI)
  let ?s0 = "put_text le txt s"
  have 1: "selected ?s0 = Some k" "dict_get k (projects ?s0) = Some p"
    "clock ?s0 = clock s" "clock_reads ?s0 = clock_reads s" "projects ?s0 = projects s"
    using assms(2,3) by (auto simp: put_text_def selected_def split: line_edit.splits)
  have h: "handle m L (TextEdited le txt) s = update_display_from_inputs m L ?s0" for m
    using assms(1) unfolding handle_def setText_def by simp
  show w: "handle (Suc n) L (TextEdited le txt) s =
           update_etc_for_project n L k
             (written\<lparr>progress_bar := py_int (displayed_percentage c t),
                      percentage_label := format_1f L (displayed_percentage c t) @ ''%''\<rparr>)"
    unfolding h using 1(1,2) assms(4,5,6)
    by (simp add: update_display_from_inputs_body_def Let_def)
  show ps: "projects written =
      map (\<lambda>q. if id_of q = k then q\<lparr>current_units := c, total_units := t\<rparr> else q) (projects s)"
    using assms(6) 1(5) by (simp add: modify_def)
  show "\<exists>s'. handle (Suc (Suc n)) L (TextEdited le txt) s = Inr s'
      \<and> projects s' = projects written
      \<and> dict_get k (projects s') = Some (p\<lparr>current_units := c, total_units := t\<rparr>)"
    if "\<not> is_running p \<or> (\<exists>st. start_time p = Some st \<and>
             (t \<le> 0 \<or> c = 0 \<or> elapsed_at_pause p + (clock s (clock_reads s) - st) = 0 \<or> c < t))"
    unfolding h ps
    using update_display_incomplete [OF 1(1,2) assms(4,5), of n] that 1(3,4,5) by auto
  show "handle (Suc (Suc n)) L (TextEdited le txt) s = Inl TypeError"
    if "is_running p \<and> start_time p = None"
  proof -
    let ?w = "written\<lparr>progress_bar := py_int (displayed_percentage c t),
                      percentage_label := format_1f L (displayed_percentage c t) @ ''%''\<rparr>"
    have "dict_get k (projects ?w) = Some (p\<lparr>current_units := c, total_units := t\<rparr>)"
      using dict_get_modify_app [OF 1(2), of "\<lambda>q. q\<lparr>current_units := c, total_units := t\<rparr>"] assms(6)
      by simp
    from update_etc_running_no_start [OF this, of n L] that
    have "update_etc_for_project (Suc n) L k ?w = Inl TypeError" by simp
    moreover have "handle (Suc (Suc n)) L (TextEdited le txt) s = update_etc_for_project (Suc n) L k ?w"
      unfolding h using 1(1,2) assms(4,5,6)
      by (simp add: update_display_from_inputs_body_def Let_def)
    ultimately show ?thesis by simp
  qed
qed

theorem live_edit_writes_parsed_values_witness:
  "(\<exists>s'. handle (Suc (Suc 0)) decimal_lib (TextEdited CurrentInput ''150'')
           (showing (a_project 100 50 None False 0) ''100.0'' ''50.0'') = Inr s'
      \<and> projects s' = [a_project 100 150 None False 0])
   \<and> total_units (a_project 100 150 None False 0) < current_units (a_project 100 150 None False 0)
   \<and> (\<exists>s'. handle (Suc (Suc 0)) decimal_lib (TextEdited CurrentInput ''80'')
           (showing (a_project 100 50 (Some 990) True 0) ''100.0'' ''50.0'') = Inr s'
      \<and> projects s' = [a_project 100 80 (Some 990) True 0])
   \<and> handle (Suc (Suc 0)) decimal_lib (TextEdited CurrentInput ''80'')
           (showing (a_project 100 50 None True 0) ''100.0'' ''50.0'') = Inl TypeError"
proof -
  let ?stopped = "showing (a_project 100 50 None False 0) ''100.0'' ''50.0''"
  let ?running = "showing (a_project 100 50 (Some 990) True 0) ''100.0'' ''50.0''"
  let ?broken = "showing (a_project 100 50 None True 0) ''100.0'' ''50.0''"
  note ev = showing_def a_project_def line_text_def put_text_def selected_def falsy_def
    get_safe_value_def modify_def
  have A: "\<exists>s'. handle (Suc (Suc 0)) decimal_lib (TextEdited CurrentInput ''150'') ?stopped = Inr s'
      \<and> projects s' = [a_project 100 150 None False 0]"
    using live_edit_writes_parsed_values [of "''150''" CurrentInput ?stopped "''a''"
        "a_project 100 50 None False 0" 150 decimal_lib 100 _ 0, OF _ _ _ _ _ refl,
        THEN conjunct2, THEN conjunct2, THEN conjunct1]
    by (auto simp: ev)
  have B: "\<exists>s'. handle (Suc (Suc 0)) decimal_lib (TextEdited CurrentInput ''80'') ?running = Inr s'
      \<and> projects s' = [a_project 100 80 (Some 990) True 0]"
    using live_edit_writes_parsed_values [of "''80''" CurrentInput ?running "''a''"
        "a_project 100 50 (Some 990) True 0" 80 decimal_lib 100 _ 0, OF _ _ _ _ _ refl,
        THEN conjunct2, THEN conjunct2, THEN conjunct1]
    by (auto simp: ev)
  have C: "handle (Suc (Suc 0)) decimal_lib (TextEdited CurrentInput ''80'') ?broken = Inl TypeError"
    using live_edit_writes_parsed_values [of "''80''" CurrentInput ?broken "''a''"
        "a_project 100 50 None True 0" 80 decimal_lib 100 _ 0, OF _ _ _ _ _ refl,
        THEN conjunct2, THEN conjunct2, THEN conjunct2]
    by (simp add: ev)
  show ?thesis
    using A B C by (simp add: a_project_def)
qed

lemma update_display_overrun_never_returns:
  "update_display_from_inputs n decimal_lib overrun_edit = Inl RecursionError"
proof -
  let ?warn = "Warning ''Input Error''
           ''Total Work Units cannot be less than Current Work Units. Setting to Current Work Units.''"
  let ?J = "\<lambda>r e. overrun_edit\<lparr>projects := [a_project 100 150 (Some 990) True 0],
      clock_reads := r, etc_label := e, progress_bar := 100, percentage_label := ''100.0%''\<rparr>"
  have f: "finalize_input_editing m decimal_lib TotalInput TotalUnits ''Total Work Units'' True
      (?J 1 ''ETC: Complete!'') = Inl RecursionError" for m
  proof (cases m)
    case (Suc m')
    have "finalize_input_editing (Suc m') decimal_lib TotalInput TotalUnits ''Total Work Units'' True
      (?J 1 ''ETC: Complete!'')
      = and_then (update_display_from_inputs m' decimal_lib (overrun_cycle [?warn] 1 ''ETC: Complete!'' 100 ''100.0%''))
          (update_display_from_inputs m' decimal_lib)"
      by (simp add: run_defs overrun_cycle_def overrun_edit_def showing_def a_project_def)
    then show ?thesis
      using Suc overrun_cycle_never_returns [of m' "[?warn]" 1 "''ETC: Complete!''" 100 "''100.0%''"]
      by (simp add: and_then_def)
  qed simp
  have t: "toggle_timer m decimal_lib (Some ''a'') (?J 1 ''ETC: Complete!'') = Inl RecursionError" for m
    using f
    by (cases m) (simp_all add: toggle_timer_body_def finalize_inputs_def and_then_def
        overrun_edit_def showing_def a_project_def)
  have e: "update_etc_for_project m decimal_lib ''a'' (?J 0 ''ETC: --:--:--'') = Inl RecursionError" for m
  proof (cases m)
    case (Suc m')
    have "update_etc_for_project (Suc m') decimal_lib ''a'' (?J 0 ''ETC: --:--:--'')
       = toggle_timer m' decimal_lib (Some ''a'') (?J 1 ''ETC: Complete!'')"
      by (simp add: run_defs overrun_edit_def showing_def a_project_def)
    then show ?thesis using Suc t by simp
  qed simp
  show ?thesis
  proof (cases n)
    case (Suc m')
    have "update_display_from_inputs (Suc m') decimal_lib overrun_edit
       = update_etc_for_project m' decimal_lib ''a'' (?J 0 ''ETC: --:--:--'')"
      by (simp add: run_defs overrun_edit_def showing_def a_project_def)
    then show ?thesis using Suc e by simp
  qed simp
qed

text \<open>
  C10 as stated fails when the edit completes a running project. The project runs with
  total 100 and current 50, and the current field is edited to 150: the handler writes
  150, the ETC computation that it calls then sees the project complete, and with
  Python's recursion limit of 1000 the handler ends in \<^verbatim>\<open>RecursionError\<close> (as for C2);
  it does not return with only the two fields changed.
\<close>

theorem live_edit_completing_counterexample:
  "handle 1000 decimal_lib (TextEdited CurrentInput ''150'')
     (showing (a_project 100 50 (Some 990) True 0) ''100.0'' ''50.0'') = Inl RecursionError"
proof -
  have "put_text CurrentInput ''150'' (showing (a_project 100 50 (Some 990) True 0) ''100.0'' ''50.0'')
      = overrun_edit"
    by (simp add: put_text_def overrun_edit_def showing_def)
  then show ?thesis
    using update_display_overrun_never_returns [of 1000]
    by (simp add: handle_def setText_def line_text_def showing_def)
qed

subsection \<open>Starting the timer\<close>

text \<open>
  While the displayed project is stopped, the finalization of a field and everything it
  calls return, and change neither the timer part of any record nor the clock.
\<close>

lemma calm_refl [simp]: "calm s s"
  by (simp add: calm_def)

lemma calm_trans: "calm s s1 \<Longrightarrow> calm s1 s2 \<Longrightarrow> calm s s2"
  by (auto simp: calm_def)

lemma calm_fields [simp]:
  "calm s (s'\<lparr>progress_bar := b\<rparr>) = calm s s'"
  "calm s (s'\<lparr>percentage_label := pl\<rparr>) = calm s s'"
  "calm s (s'\<lparr>etc_label := e\<rparr>) = calm s s'"
  "calm s (s'\<lparr>total_value_input := t\<rparr>) = calm s s'"
  "calm s (s'\<lparr>current_value_input := t\<rparr>) = calm s s'"
  by (simp_all add: calm_def)

lemma calm_put_text [simp]: "calm s (put_text le t s') = calm s s'"
  by (cases le) (simp_all add: put_text_def)

lemma calm_from_put_text [simp]: "calm (put_text le t s) s' = calm s s'"
  by (cases le) (simp_all add: put_text_def calm_def)

lemma calm_show_message: "calm s s' \<Longrightarrow> calm s (show_message m s')"
  by (auto simp: calm_def show_message_def)

lemma calm_modify:
  assumes "calm s s'" and "\<And>q. timer_part (f q) = timer_part q"
  shows "calm s (modify k f s')"
proof -
  have "timer_part \<circ> (\<lambda>p. if id_of p = k then f p else p) = timer_part"
    by (auto simp: fun_eq_iff assms(2))
  then show ?thesis
    using assms(1) by (simp add: calm_def modify_def)
qed

lemma calm_setattr: "calm s s' \<Longrightarrow> calm s (modify k (setattr a v) s')"
  by (rule calm_modify) (auto simp: setattr_def timer_part_def split: attr.splits)

lemma calm_refetch: "calm s s' \<Longrightarrow> calm s (refetch L k s')"
  unfolding refetch_def by (intro calm_modify) (auto simp: timer_part_def)

lemma dict_get_timer_part:
  "map timer_part ps' = map timer_part ps \<Longrightarrow> dict_get k ps = Some p \<Longrightarrow>
   \<exists>p'. dict_get k ps' = Some p' \<and> timer_part p' = timer_part p"
proof (induction ps arbitrary: ps')
  case Nil
  then show ?case by simp
next
  case (Cons q qs)
  then obtain q' qs' where ps': "ps' = q' # qs'" and q: "timer_part q' = timer_part q"
    and qs: "map timer_part qs' = map timer_part qs"
    by (cases ps') auto
  have "id_of q' = id_of q" using q by (simp add: timer_part_def)
  then show ?case
    using Cons.IH [OF qs] Cons.prems(2) ps' q by (auto split: if_splits)
qed

lemma dict_get_calm:
  "calm s s' \<Longrightarrow> dict_get k (projects s) = Some p \<Longrightarrow>
   \<exists>p'. dict_get k (projects s') = Some p' \<and> timer_part p' = timer_part p"
  using dict_get_timer_part [of "projects s'" "projects s" k p] by (simp add: calm_def)

lemma selected_calm: "calm s s' \<Longrightarrow> selected s' = selected s"
  by (simp add: calm_def selected_def)

lemma update_display_stopped_calm:
  assumes "selected s = Some k" and "dict_get k (projects s) = Some p" and "\<not> is_running p"
  shows "\<exists>s'. update_display_from_inputs (Suc (Suc n)) L s = Inr s' \<and> calm s s'"
  using update_display_stopped [OF assms(1,2) refl refl assms(3), where L = L and n = n]
  by (auto intro!: calm_modify simp: timer_part_def)

lemma setText_stopped_calm:
  assumes "selected s = Some k" and "dict_get k (projects s) = Some p" and "\<not> is_running p"
  shows "\<exists>s'. setText le t (update_display_from_inputs (Suc (Suc n)) L) s = Inr s' \<and> calm s s'"
proof (cases "line_text le s = t")
  case True
  then show ?thesis by (simp add: setText_def)
next
  case False
  let ?s0 = "put_text le t s"
  have "selected ?s0 = Some k" "dict_get k (projects ?s0) = Some p"
    using assms(1,2) by (auto simp: put_text_def selected_def split: line_edit.splits)
  from update_display_stopped_calm [OF this assms(3), of n L]
  obtain s' where "update_display_from_inputs (Suc (Suc n)) L ?s0 = Inr s'" and "calm ?s0 s'"
    by blast
  then show ?thesis
    using False by (simp add: setText_def)
qed

lemma validate_stopped:
  assumes "\<not> is_running p"
  shows "\<exists>v' s'. validate toggle p a fn it v s = Inr (v', s') \<and> calm s s'"
  using assms by (auto simp: validate_def Let_def intro!: calm_show_message)


lemma stopped_calm:
  assumes "calm s s'" and "dict_get k (projects s) = Some p" and "\<not> is_running p"
  obtains p' where "dict_get k (projects s') = Some p'" and "\<not> is_running p'"
    and "start_time p' = start_time p" and "elapsed_at_pause p' = elapsed_at_pause p"
  using dict_get_calm [OF assms(1,2)] assms(3) by (auto simp: timer_part_def)

lemma store_input_stopped:
  assumes sel: "selected s = Some k" and p: "dict_get k (projects s) = Some p"
    and stopped: "\<not> is_running p"
  shows "\<exists>s'. store_input toggle (update_display_from_inputs (Suc (Suc n)) L) L le a fn it k p s = Inr s'
      \<and> calm s s'"
proof (cases "float_of L (line_text le s)")
  case None
  let ?s1 = "if \<not> is_blank L (line_text le s)
             then show_message (Warning ''Input Error''
                    (''Please enter a valid number for '' @ fn @ ''.'')) s
             else s"
  have c1: "calm s ?s1" by (simp add: calm_show_message)
  have "selected ?s1 = Some k" "dict_get k (projects ?s1) = Some p"
    using sel p by (auto simp: show_message_def selected_def)
  from setText_stopped_calm [OF this stopped, of le "format_1f L (getattr p a)" n L]
  obtain s' where r: "setText le (format_1f L (getattr p a)) (update_display_from_inputs (Suc (Suc n)) L) ?s1 = Inr s'"
    and c2: "calm ?s1 s'" by blast
  have "calm s s'" using c1 c2 by (rule calm_trans)
  moreover have "store_input toggle (update_display_from_inputs (Suc (Suc n)) L) L le a fn it k p s = Inr s'"
    using None r unfolding store_input_def by simp
  ultimately show ?thesis by blast
next
  case (Some v)
  from validate_stopped [OF stopped, of toggle a fn it v s]
  obtain v' s3 where v: "validate toggle p a fn it v s = Inr (v', s3)" and c3: "calm s s3"
    by blast
  let ?s4 = "modify k (setattr a v') s3"
  have c4: "calm s ?s4" using c3 by (rule calm_setattr)
  from stopped_calm [OF c4 p stopped] obtain p4 where
    p4: "dict_get k (projects ?s4) = Some p4" and st4: "\<not> is_running p4"
    by blast
  have sel4: "selected ?s4 = Some k"
    using selected_calm [OF c4] sel by simp
  from setText_stopped_calm [OF sel4 p4 st4, of le "format_1f L v'" n L]
  obtain s' where r: "setText le (format_1f L v') (update_display_from_inputs (Suc (Suc n)) L) ?s4 = Inr s'"
    and c5: "calm ?s4 s'" by blast
  have "calm s s'" using c4 c5 by (rule calm_trans)
  moreover have "store_input toggle (update_display_from_inputs (Suc (Suc n)) L) L le a fn it k p s = Inr s'"
    using Some v r unfolding store_input_def by (simp add: and_then_def)
  ultimately show ?thesis by blast
qed

lemma finalize_stopped:
  assumes sel: "selected s = Some k" and p: "dict_get k (projects s) = Some p"
    and stopped: "\<not> is_running p"
  shows "\<exists>s'. finalize_input_editing (Suc (Suc (Suc n))) L le a fn it s = Inr s' \<and> calm s s'"
proof -
  from store_input_stopped [OF assms, of "toggle_timer (Suc (Suc n)) L" n L le a fn it]
  obtain s1 where 1: "store_input (toggle_timer (Suc (Suc n)) L)
      (update_display_from_inputs (Suc (Suc n)) L) L le a fn it k p s = Inr s1" and c1: "calm s s1"
    by blast
  from stopped_calm [OF c1 p stopped] obtain p1 where
    p1: "dict_get k (projects s1) = Some p1" and st1: "\<not> is_running p1"
    by blast
  have sel1: "selected s1 = Some k"
    using selected_calm [OF c1] sel by simp
  from update_display_stopped_calm [OF sel1 p1 st1, of n L]
  obtain s' where 2: "update_display_from_inputs (Suc (Suc n)) L s1 = Inr s'" and c2: "calm s1 s'"
    by blast
  have "finalize_input_editing (Suc (Suc (Suc n))) L le a fn it s = Inr s'"
    using sel p 1 2 by (simp add: finalize_input_editing_body_def and_then_def)
  then show ?thesis
    using calm_trans [OF c1 c2] by blast
qed

lemma finalize_inputs_stopped:
  assumes k: "k \<noteq> []" and p: "dict_get k (projects s) = Some p" and stopped: "\<not> is_running p"
  shows "\<exists>s'. finalize_inputs (finalize_input_editing (Suc (Suc (Suc n))) L) L k s = Inr s'
      \<and> calm s s' \<and> (Some k \<noteq> current_project_id s \<longrightarrow> s' = s)"
proof (cases "Some k = current_project_id s")
  case False
  then show ?thesis by (simp add: finalize_inputs_def)
next
  case True
  then have sel: "selected s = Some k"
    using k True [symmetric] by (simp add: selected_def falsy_def)
  from finalize_stopped [OF sel p stopped, of n L TotalInput TotalUnits "''Total Work Units''" True]
  obtain s1 where 1: "finalize_input_editing (Suc (Suc (Suc n))) L TotalInput TotalUnits
      ''Total Work Units'' True s = Inr s1" and c1: "calm s s1"
    by blast
  from stopped_calm [OF c1 p stopped] obtain p1 where
    p1: "dict_get k (projects s1) = Some p1" and st1: "\<not> is_running p1"
    by blast
  have sel1: "selected s1 = Some k"
    using selected_calm [OF c1] sel by simp
  from finalize_stopped [OF sel1 p1 st1, of n L CurrentInput CurrentUnits "''Current Work Units''" False]
  obtain s2 where 2: "finalize_input_editing (Suc (Suc (Suc n))) L CurrentInput CurrentUnits
      ''Current Work Units'' False s1 = Inr s2" and c2: "calm s1 s2"
    by blast
  have "calm s (refetch L k s2)"
    using calm_trans [OF c1 c2] by (rule calm_refetch)
  moreover have "finalize_inputs (finalize_input_editing (Suc (Suc (Suc n))) L) L k s = Inr (refetch L k s2)"
    using True 1 2 by (simp add: finalize_inputs_def and_then_def)
  ultimately show ?thesis using True by simp
qed

text \<open>
  The pre-flight checks of a stopped project, lines 746 to 760, on the record as it is
  when they run.
\<close>

lemma start_or_stop_stopped:
  assumes p3: "dict_get k (projects s3) = Some p3" and stopped: "\<not> is_running p3"
  shows "\<exists>s' p'. start_or_stop (update_etc_for_project (Suc m) L) k s3 = Inr s'
      \<and> dict_get k (projects s') = Some p'
      \<and> total_units p' = total_units p3 \<and> current_units p' = current_units p3
      \<and> elapsed_at_pause p' = elapsed_at_pause p3
      \<and> (is_running p' \<longleftrightarrow> 0 < total_units p3 \<and> 0 \<le> current_units p3 \<and> current_units p3 < total_units p3)
      \<and> (is_running p' \<longrightarrow> start_time p' = Some (clock s3 (clock_reads s3)))
      \<and> (\<not> is_running p' \<longrightarrow> start_time p' = start_time p3 \<and> projects s' = projects s3
            \<and> messages s' \<noteq> [] \<and> last (messages s') \<in> set start_refusals)"
proof -
  consider (a) "total_units p3 \<le> 0"
    | (b) "0 < total_units p3" "current_units p3 < 0"
    | (c) "0 < total_units p3" "0 \<le> current_units p3" "total_units p3 \<le> current_units p3"
    | (d) "0 < total_units p3" "0 \<le> current_units p3" "current_units p3 < total_units p3"
    by linarith
  then show ?thesis
  proof cases
    case a
    then have "start_or_stop (update_etc_for_project (Suc m) L) k s3 =
        Inr (show_message (Warning ''Timer Error''
              ''Total Work Units must be a positive number to start the timer.'') s3)"
      using p3 stopped by (simp add: start_or_stop_def)
    then show ?thesis
      using p3 stopped a by (simp add: show_message_def start_refusals_def)
  next
    case b
    then have "start_or_stop (update_etc_for_project (Suc m) L) k s3 =
        Inr (show_message (Warning ''Timer Error'' ''Current Work Units cannot be negative.'') s3)"
      using p3 stopped by (simp add: start_or_stop_def)
    then show ?thesis
      using p3 stopped b by (simp add: show_message_def start_refusals_def)
  next
    case c
    let ?m = "Information ''Timer Info''
        ''Current Work Units already meet or exceed Total. Project is complete. No need to start timer.''"
    have p3': "dict_get k (projects (show_message ?m s3)) = Some p3"
      using p3 by (simp add: show_message_def)
    have "start_or_stop (update_etc_for_project (Suc m) L) k s3 =
        update_etc_for_project (Suc m) L k (show_message ?m s3)"
      using p3 stopped c by (simp add: start_or_stop_def)
    also have "\<dots> = Inr (set_etc p3 (if start_time p3 \<noteq> None
                     then ''ETC: Paused ('' @ format_time (Some (elapsed_at_pause p3)) @ '' elapsed)''
                     else ''ETC: --:--:--'') (show_message ?m s3))"
      using update_etc_stopped [OF p3' stopped] .
    finally show ?thesis
      using p3 stopped c by (simp add: show_message_def set_etc_def start_refusals_def)
  next
    case d
    let ?now = "clock s3 (clock_reads s3)"
    let ?p4 = "p3\<lparr>start_time := Some ?now, is_running := True\<rparr>"
    let ?s4 = "start_timer k s3"
    have p4: "dict_get k (projects ?s4) = Some ?p4"
      using dict_get_modify [OF p3, of "\<lambda>p. p\<lparr>start_time := Some ?now, is_running := True\<rparr>"]
      by (simp add: start_timer_def time_time_def set_button_def modify_def)
    have r: "start_or_stop (update_etc_for_project (Suc m) L) k s3 =
        (if Some k = current_project_id ?s4 then update_etc_for_project (Suc m) L k ?s4 else Inr ?s4)"
      using p3 stopped d by (simp add: start_or_stop_def Let_def)
    have "\<exists>s'. start_or_stop (update_etc_for_project (Suc m) L) k s3 = Inr s'
        \<and> projects s' = projects ?s4"
    proof (cases "Some k = current_project_id ?s4")
      case False
      then show ?thesis using r by simp
    next
      case True
      have "is_running ?p4" "start_time ?p4 = Some ?now" by simp_all
      from update_etc_running_incomplete [OF p4 this, of m L] d
      obtain lbl where "update_etc_for_project (Suc m) L k ?s4 =
          Inr (set_etc ?p4 lbl (?s4\<lparr>clock_reads := Suc (clock_reads ?s4)\<rparr>))"
        by auto
      then show ?thesis
        using r True by (simp add: set_etc_def)
    qed
    then obtain s' where s': "start_or_stop (update_etc_for_project (Suc m) L) k s3 = Inr s'"
      and ps: "projects s' = projects ?s4"
      by blast
    show ?thesis
      using s' p4 d unfolding ps [symmetric]
      by (intro exI [of _ s'] exI [of _ ?p4]) simp
  qed
qed

lemma decimal_five_point [simp]:
  "strip ''5.0'' = ''5.0''" "decimal_float ''5.0'' = Some 5"
  by (simp_all add: decimal_float_def strip_def unsigned_decimal_def digit_value_def)

text \<open>
  C3 (amended). A request to start a stopped project of the store (its id not empty,
  named by the argument or, without argument, the displayed one) returns. The
  preconditions total > 0, current \<ge> 0 and current < total are checked on the values
  that the record
  has when the checks run: the stored values for a project that is not displayed, and
  for the displayed project the values that the finalization of the two fields, which
  \<^verbatim>\<open>toggle_timer\<close> runs first, has left in the record. The project runs afterwards
  exactly when they hold, and then its start time is the clock's reading at the call.
  When one fails, the last message shown is one of the three refusals, and
  \<open>is_running\<close>, \<open>start_time\<close> and \<open>elapsed_at_pause\<close> are as before; the whole store is
  as before when the project is not the displayed one. \<open>elapsed_at_pause\<close> is unchanged
  in both cases.
\<close>

theorem start_request_checks_finalized_values:
  assumes k: "k \<noteq> []" and p: "dict_get k (projects s) = Some p" and stopped: "\<not> is_running p"
    and arg: "arg = Some k \<or> arg = None \<and> current_project_id s = Some k"
  shows "\<exists>s' p'. toggle_timer (Suc (Suc (Suc (Suc n)))) L arg s = Inr s'
      \<and> dict_get k (projects s') = Some p'
      \<and> (is_running p' \<longleftrightarrow>
            0 < total_units p' \<and> 0 \<le> current_units p' \<and> current_units p' < total_units p')
      \<and> (is_running p' \<longrightarrow> start_time p' = Some (clock s (clock_reads s)))
      \<and> (\<not> is_running p' \<longrightarrow>
            start_time p' = start_time p \<and> messages s' \<noteq> [] \<and> last (messages s') \<in> set start_refusals)
      \<and> elapsed_at_pause p' = elapsed_at_pause p
      \<and> (Some k \<noteq> current_project_id s \<longrightarrow>
            total_units p' = total_units p \<and> current_units p' = current_units p
            \<and> (\<not> is_running p' \<longrightarrow> projects s' = projects s))"
proof -
  from finalize_inputs_stopped [OF k p stopped, of n L]
  obtain s3 where f: "finalize_inputs (finalize_input_editing (Suc (Suc (Suc n))) L) L k s = Inr s3"
    and c: "calm s s3" and same: "Some k \<noteq> current_project_id s \<longrightarrow> s3 = s"
    by blast
  from stopped_calm [OF c p stopped] obtain p3 where
    p3: "dict_get k (projects s3) = Some p3" and st3: "\<not> is_running p3"
    and t3: "start_time p3 = start_time p" and e3: "elapsed_at_pause p3 = elapsed_at_pause p"
    by blast
  have clk: "clock s3 (clock_reads s3) = clock s (clock_reads s)"
    using c by (simp add: calm_def)
  have "(case arg of None \<Rightarrow> current_project_id s | Some a \<Rightarrow> Some a) = Some k"
    using arg by auto
  then have T: "toggle_timer (Suc (Suc (Suc (Suc n)))) L arg s =
      start_or_stop (update_etc_for_project (Suc (Suc (Suc n))) L) k s3"
    using k p f by (simp add: toggle_timer_body_def and_then_def)
  from start_or_stop_stopped [OF p3 st3, of "Suc (Suc n)" L]
  obtain s' p' where r: "start_or_stop (update_etc_for_project (Suc (Suc (Suc n))) L) k s3 = Inr s'"
    and p': "dict_get k (projects s') = Some p'"
    and v: "total_units p' = total_units p3" "current_units p' = current_units p3"
      "elapsed_at_pause p' = elapsed_at_pause p3"
    and run: "is_running p' \<longleftrightarrow> 0 < total_units p3 \<and> 0 \<le> current_units p3 \<and> current_units p3 < total_units p3"
    and started: "is_running p' \<longrightarrow> start_time p' = Some (clock s3 (clock_reads s3))"
    and refused: "\<not> is_running p' \<longrightarrow> start_time p' = start_time p3 \<and> projects s' = projects s3
            \<and> messages s' \<noteq> [] \<and> last (messages s') \<in> set start_refusals"
    by blast
  have other: "Some k \<noteq> current_project_id s \<longrightarrow> p3 = p"
    using same p p3 by auto
  show ?thesis
  proof (intro exI [of _ s'] exI [of _ p'] conjI)
    show "toggle_timer (Suc (Suc (Suc (Suc n)))) L arg s = Inr s'" using T r by simp
    show "dict_get k (projects s') = Some p'" by (rule p')
    show "is_running p' \<longleftrightarrow>
            0 < total_units p' \<and> 0 \<le> current_units p' \<and> current_units p' < total_units p'"
      using run v by simp
    show "is_running p' \<longrightarrow> start_time p' = Some (clock s (clock_reads s))"
      using started clk by simp
    show "\<not> is_running p' \<longrightarrow>
            start_time p' = start_time p \<and> messages s' \<noteq> [] \<and> last (messages s') \<in> set start_refusals"
      using refused t3 by simp
    show "elapsed_at_pause p' = elapsed_at_pause p" using v e3 by simp
    show "Some k \<noteq> current_project_id s \<longrightarrow>
            total_units p' = total_units p \<and> current_units p' = current_units p
            \<and> (\<not> is_running p' \<longrightarrow> projects s' = projects s)"
      using other same v refused by auto
  qed
qed

theorem start_request_checks_finalized_values_witness:
  "(\<exists>s' p'. toggle_timer (Suc (Suc (Suc (Suc 0)))) decimal_lib None
               (showing (a_project 100 50 None False 0) ''100.0'' ''50.0'') = Inr s'
      \<and> dict_get ''a'' (projects s') = Some p'
      \<and> is_running p' \<and> start_time p' = Some 1000 \<and> elapsed_at_pause p' = 0
      \<and> total_units p' = 100 \<and> current_units p' = 50)
   \<and> (\<exists>s'. toggle_timer (Suc (Suc (Suc (Suc 0)))) decimal_lib (Some ''a'')
               ((showing (a_project 50 80 None False 0) ''50.0'' ''80.0'')\<lparr>current_project_id := None\<rparr>)
             = Inr s'
      \<and> projects s' = [a_project 50 80 None False 0]
      \<and> last (messages s') \<in> set start_refusals)"
proof -
  let ?s = "showing (a_project 100 50 None False 0) ''100.0'' ''50.0''"
  have c: "map_sum id projects (toggle_timer (Suc (Suc (Suc (Suc 0)))) decimal_lib None ?s)
      = Inr [a_project 100 50 (Some 1000) True 0]"
    by (simp add: run_defs showing_def a_project_def)
  have s: "''a'' \<noteq> []" "dict_get ''a'' (projects ?s) = Some (a_project 100 50 None False 0)"
    "\<not> is_running (a_project 100 50 None False 0)"
    "None = Some ''a'' \<or> None = None \<and> current_project_id ?s = Some ''a''"
    by (simp_all add: showing_def a_project_def)
  have A: "\<exists>s' p'. toggle_timer (Suc (Suc (Suc (Suc 0)))) decimal_lib None ?s = Inr s'
      \<and> dict_get ''a'' (projects s') = Some p'
      \<and> is_running p' \<and> start_time p' = Some 1000 \<and> elapsed_at_pause p' = 0
      \<and> total_units p' = 100 \<and> current_units p' = 50"
    using start_request_checks_finalized_values [OF s, of 0 decimal_lib]
  proof (elim exE conjE)
    fix s' p'
    assume r: "toggle_timer (Suc (Suc (Suc (Suc 0)))) decimal_lib None ?s = Inr s'"
      and p': "dict_get ''a'' (projects s') = Some p'"
      and started: "is_running p' \<longrightarrow> start_time p' = Some (clock ?s (clock_reads ?s))"
    from c r have "projects s' = [a_project 100 50 (Some 1000) True 0]" by simp
    with p' have "p' = a_project 100 50 (Some 1000) True 0" by (simp add: a_project_def)
    then show ?thesis
      using r p' by (intro exI [of _ s'] exI [of _ p']) (simp add: a_project_def)
  qed
  let ?q = "a_project 50 80 None False 0"
  let ?u = "(showing ?q ''50.0'' ''80.0'')\<lparr>current_project_id := None\<rparr>"
  have u: "''a'' \<noteq> []" "dict_get ''a'' (projects ?u) = Some ?q" "\<not> is_running ?q"
    "Some ''a'' = Some ''a'' \<or> Some ''a'' = None \<and> current_project_id ?u = Some ''a''"
    by (simp_all add: showing_def a_project_def)
  have B: "\<exists>s'. toggle_timer (Suc (Suc (Suc (Suc 0)))) decimal_lib (Some ''a'') ?u = Inr s'
      \<and> projects s' = [a_project 50 80 None False 0]
      \<and> last (messages s') \<in> set start_refusals"
    using start_request_checks_finalized_values [OF u, of 0 decimal_lib]
  proof (elim exE conjE)
    fix u' q'
    assume t: "toggle_timer (Suc (Suc (Suc (Suc 0)))) decimal_lib (Some ''a'') ?u = Inr u'"
      and run: "is_running q' \<longleftrightarrow>
           0 < total_units q' \<and> 0 \<le> current_units q' \<and> current_units q' < total_units q'"
      and refused: "\<not> is_running q' \<longrightarrow> start_time q' = start_time ?q \<and> messages u' \<noteq> []
           \<and> last (messages u') \<in> set start_refusals"
      and other: "Some ''a'' \<noteq> current_project_id ?u \<longrightarrow>
           total_units q' = total_units ?q \<and> current_units q' = current_units ?q
           \<and> (\<not> is_running q' \<longrightarrow> projects u' = projects ?u)"
    have "total_units q' = 50" "current_units q' = 80"
      using other by (simp_all add: showing_def a_project_def)
    then have "\<not> is_running q'" using run by simp
    then have "projects u' = [?q]" "last (messages u') \<in> set start_refusals"
      using other refused by (simp_all add: showing_def)
    then show ?thesis
      using t by (intro exI [of _ u']) simp
  qed
  from A B show ?thesis by (rule conjI)
qed

text \<open>
  A stopped project with total 100 and current 5 is displayed. The total field is edited
  to 0.0 and finalized, and then the start is requested.
\<close>

lemma refused_start_run:
  "map_sum id projects
     (run_events (Suc (Suc (Suc (Suc n)))) decimal_lib
        [TextEdited TotalInput ''0.0'', EditingFinished TotalInput]
        (showing (a_project 100 5 None False 0) ''100.0'' ''5.0''))
   = Inr [a_project 0 5 None False 0]
   \<and> map_sum id (\<lambda>s. (projects s, last (messages s)))
     (run_events (Suc (Suc (Suc (Suc n)))) decimal_lib
        [TextEdited TotalInput ''0.0'', EditingFinished TotalInput, ToggleTimer None]
        (showing (a_project 100 5 None False 0) ''100.0'' ''5.0''))
   = Inr ([a_project 0 0 None False 0],
          Warning ''Timer Error'' ''Total Work Units must be a positive number to start the timer.'')"
  by (simp add: handle_def run_defs showing_def a_project_def)

text \<open>
  C3 as stated fails for the displayed project: a refused start can change the record.
  A stopped project with total 100 and current 5 is displayed; the total field is edited
  to 0.0 and finalized, which leaves total 0 and current 5 in the record. The start is
  then requested: \<^verbatim>\<open>toggle_timer\<close> finalizes both fields, which caps current at the
  total, and refuses with the message that the total must be positive; the record now
  holds current 0. The recursion limit is Python's 1000.
\<close>

theorem refused_start_changes_units_counterexample:
  "map_sum id projects
     (run_events 1000 decimal_lib
        [TextEdited TotalInput ''0.0'', EditingFinished TotalInput]
        (showing (a_project 100 5 None False 0) ''100.0'' ''5.0''))
   = Inr [a_project 0 5 None False 0]
   \<and> map_sum id (\<lambda>s. (projects s, last (messages s)))
     (run_events 1000 decimal_lib
        [TextEdited TotalInput ''0.0'', EditingFinished TotalInput, ToggleTimer None]
        (showing (a_project 100 5 None False 0) ''100.0'' ''5.0''))
   = Inr ([a_project 0 0 None False 0],
          Warning ''Timer Error'' ''Total Work Units must be a positive number to start the timer.'')"
  using refused_start_run [of 996] by simp

end
